theory Spec2Isabelle
  imports Main "HOL-Library.Sublist" "HOL-Library.Word"
begin

section \<open>The document tree\<close>

text \<open>
  The injected script works on the page's DOM. An element carries what the script reads
  from it: its tag name (upper case, as \<^verbatim>\<open>element.tagName\<close> reports it for
  HTML), its \<^verbatim>\<open>id\<close> (the empty string when it has none), its class list, the
  inline style properties the scripts set, and its child elements in document order.
  Text nodes are left out: no handler looks at them.
\<close>

datatype element =
  Element (tagName: string) (elemId: string) (classList: "string list")
    (style: "(string \<times> string) list") (children: "element list")

text \<open>
  An element reference is the position of the element in the tree: its index among its
  parent's children, followed by the position of the parent; \<open>[]\<close> is the root
  (\<^verbatim>\<open>document.documentElement\<close>, whose \<^verbatim>\<open>parentElement\<close> is null). Two
  references are the same element exactly when they are the same position, which is what
  \<^verbatim>\<open>===\<close> and \<^verbatim>\<open>indexOf\<close> compare.
\<close>

type_synonym node = "nat list"

fun nodeAt :: "element \<Rightarrow> node \<Rightarrow> element option" where
  "nodeAt root [] = Some root"
| "nodeAt root (i # up) =
     (case nodeAt root up of
        None \<Rightarrow> None
      | Some p \<Rightarrow> if i < length (children p) then Some (children p ! i) else None)"

text \<open>\<^verbatim>\<open>a.contains(b)\<close>: \<open>b\<close> is \<open>a\<close> or a descendant of \<open>a\<close>.\<close>

definition contains :: "node \<Rightarrow> node \<Rightarrow> bool" where
  "contains a b = suffix a b"

section \<open>Strings\<close>

text \<open>
  Tag names, ids, class names and selectors are \<open>string\<close>s. \<^verbatim>\<open>toLowerCase\<close> is
  modelled on the ASCII letters, which is what tag names are made of.
\<close>

definition toLowerChar :: "char \<Rightarrow> char" where
  "toLowerChar c =
     (case map_of (zip ''ABCDEFGHIJKLMNOPQRSTUVWXYZ'' ''abcdefghijklmnopqrstuvwxyz'') c of
        Some d \<Rightarrow> d
      | None \<Rightarrow> c)"

definition toLowerCase :: "string \<Rightarrow> string" where
  "toLowerCase s = map toLowerChar s"

text \<open>The decimal digits of a number, as string concatenation with a number writes them.\<close>

definition digit :: "nat \<Rightarrow> char" where
  "digit d = ''0123456789'' ! d"

fun showNat :: "nat \<Rightarrow> string" where
  "showNat n = (if n < 10 then [digit n] else showNat (n div 10) @ [digit (n mod 10)])"

declare showNat.simps [simp del]

text \<open>\<^verbatim>\<open>Array.prototype.join\<close>.\<close>

fun join :: "string \<Rightarrow> string list \<Rightarrow> string" where
  "join sep [] = []"
| "join sep [x] = x"
| "join sep (x # y # ys) = x @ sep @ join sep (y # ys)"

section \<open>The selector synthesizers\<close>

text \<open>
  \<^verbatim>\<open>Array.from(parent.children).filter(child => child.tagName === element.tagName)\<close>
  followed by \<^verbatim>\<open>siblings.indexOf(element)\<close>: the element is the \<open>i\<close>-th child of
  its parent, so its index among the children of its tag is the number of children of
  that tag before position \<open>i\<close>.
\<close>

definition siblings :: "element \<Rightarrow> element \<Rightarrow> element list" where
  "siblings parent e = filter (\<lambda>child. tagName child = tagName e) (children parent)"

definition siblingIndex :: "element \<Rightarrow> element \<Rightarrow> nat \<Rightarrow> nat" where
  "siblingIndex parent e i =
     length (filter (\<lambda>child. tagName child = tagName e) (take i (children parent)))"

text \<open>
  \<^verbatim>\<open>getSelector\<close> of the toggle-button script (the first \<^verbatim>\<open>index.ts\<close>): the id,
  else the tag with all classes, else the tag with a position among the parent's
  children of that tag. It looks at the element's own parent only. The result is
  \<open>None\<close> when the reference is not an element of the document.
\<close>

definition getSelector :: "element \<Rightarrow> node \<Rightarrow> string option" where
  "getSelector doc n =
     (case nodeAt doc n of
        None \<Rightarrow> None
      | Some e \<Rightarrow>
          if elemId e \<noteq> [] then Some (''#'' @ elemId e)
          else if length (classList e) > 0
            then Some (toLowerCase (tagName e) @ ''.'' @ join ''.'' (classList e))
          else
            (case n of
               [] \<Rightarrow> Some (toLowerCase (tagName e))
             | i # up \<Rightarrow>
                 (case nodeAt doc up of
                    None \<Rightarrow> None
                  | Some parent \<Rightarrow>
                      if length (siblings parent e) > 1
                      then Some (toLowerCase (tagName e) @ '':nth-child(''
                                  @ showNat (siblingIndex parent e i + 1) @ '')'')
                      else Some (toLowerCase (tagName e)))))"

text \<open>
  \<^verbatim>\<open>getUniqueSelector\<close> of the floating-icon script (the second \<^verbatim>\<open>index.ts\<close>):
  the id, else \<open>body\<close>, else the parent's selector, \<open>>\<close>, and the tag, with a position
  when the parent has several children of that tag. It never looks at the classes.
\<close>

fun getUniqueSelector :: "element \<Rightarrow> node \<Rightarrow> string option" where
  "getUniqueSelector doc [] =
     (case nodeAt doc [] of
        None \<Rightarrow> None
      | Some e \<Rightarrow>
          if elemId e \<noteq> [] then Some (''#'' @ elemId e)
          else if tagName e = ''BODY'' then Some ''body''
          else Some (toLowerCase (tagName e)))"
| "getUniqueSelector doc (i # up) =
     (case nodeAt doc (i # up) of
        None \<Rightarrow> None
      | Some e \<Rightarrow>
          if elemId e \<noteq> [] then Some (''#'' @ elemId e)
          else if tagName e = ''BODY'' then Some ''body''
          else
            (case nodeAt doc up of
               None \<Rightarrow> None
             | Some parent \<Rightarrow>
                 (case getUniqueSelector doc up of
                    None \<Rightarrow> None
                  | Some ps \<Rightarrow>
                      if length (siblings parent e) = 1
                      then Some (ps @ '' > '' @ toLowerCase (tagName e))
                      else Some (ps @ '' > '' @ toLowerCase (tagName e) @ '':nth-child(''
                                  @ showNat (siblingIndex parent e i + 1) @ '')''))))"

section \<open>Reading and changing the tree\<close>

text \<open>
  \<^verbatim>\<open>document.getElementById\<close>: the first element with the id, in document order
  (an element before its children, children left to right).
\<close>

fun getElementById_in :: "string \<Rightarrow> element \<Rightarrow> node option"
  and getElementById_among :: "string \<Rightarrow> nat \<Rightarrow> element list \<Rightarrow> node option" where
  "getElementById_in i (Element t d c s ch) =
     (if d = i then Some [] else getElementById_among i 0 ch)"
| "getElementById_among i k [] = None"
| "getElementById_among i k (e # es) =
     (case getElementById_in i e of
        Some n \<Rightarrow> Some (n @ [k])
      | None \<Rightarrow> getElementById_among i (Suc k) es)"

definition getElementById :: "element \<Rightarrow> string \<Rightarrow> node option" where
  "getElementById doc i = getElementById_in i doc"

text \<open>How many elements of the tree carry an id.\<close>

fun countId :: "string \<Rightarrow> element \<Rightarrow> nat" where
  "countId i (Element t d c s ch) = (if d = i then 1 else 0) + sum_list (map (countId i) ch)"

text \<open>
  \<open>modifyAt\<close> rewrites the element found by walking down from the root; a walk that
  leaves the tree changes nothing.
\<close>

fun modifyAt :: "nat list \<Rightarrow> (element \<Rightarrow> element) \<Rightarrow> element \<Rightarrow> element" where
  "modifyAt [] f e = f e"
| "modifyAt (i # down) f (Element t d c s ch) =
     Element t d c s (if i < length ch then ch[i := modifyAt down f (ch ! i)] else ch)"

definition withChildren :: "(element list \<Rightarrow> element list) \<Rightarrow> element \<Rightarrow> element" where
  "withChildren g e = Element (tagName e) (elemId e) (classList e) (style e) (g (children e))"

text \<open>
  \<^verbatim>\<open>element.remove()\<close> takes the element, with everything below it, out of its
  parent. The root is never removed here: a document without a root element is outside
  the model.
\<close>

definition removeNode :: "element \<Rightarrow> node \<Rightarrow> element" where
  "removeNode doc n =
     (case n of
        [] \<Rightarrow> doc
      | i # up \<Rightarrow> modifyAt (rev up) (withChildren (\<lambda>ch. take i ch @ drop (Suc i) ch)) doc)"

definition appendChild :: "element \<Rightarrow> node \<Rightarrow> element \<Rightarrow> element" where
  "appendChild doc parent e = modifyAt (rev parent) (withChildren (\<lambda>ch. ch @ [e])) doc"

fun findIndex :: "('a \<Rightarrow> bool) \<Rightarrow> 'a list \<Rightarrow> nat option" where
  "findIndex P [] = None"
| "findIndex P (x # xs) = (if P x then Some 0 else map_option Suc (findIndex P xs))"

text \<open>\<^verbatim>\<open>document.body\<close>: the first \<open>BODY\<close> child of the root, null when there is none.\<close>

definition body :: "element \<Rightarrow> node option" where
  "body doc = map_option (\<lambda>i. [i]) (findIndex (\<lambda>e. tagName e = ''BODY'') (children doc))"

section \<open>The nodes the toggle-button script creates\<close>

text \<open>
  Each node is given with its tag, its id, the style properties that decide stacking and
  visibility as the script first sets them (\<open>position\<close>, \<open>zIndex\<close>, \<open>display\<close>,
  \<open>pointerEvents\<close>) and the child elements its \<^verbatim>\<open>innerHTML\<close> creates. Colours,
  paddings, fonts and shadows are left out.
\<close>

definition overlayElement :: element where
  "overlayElement = Element ''DIV'' ''mcp-inspector-overlay'' []
     [(''position'', ''fixed''), (''zIndex'', ''9999''), (''pointerEvents'', ''none''),
      (''display'', ''none'')] []"

definition infoPanelElement :: element where
  "infoPanelElement = Element ''DIV'' ''mcp-inspector-info'' []
     [(''position'', ''fixed''), (''zIndex'', ''10000''), (''display'', ''none'')] []"

definition dialogBoxElement :: element where
  "dialogBoxElement = Element ''DIV'' ''mcp-inspector-dialog'' []
     [(''position'', ''absolute''), (''zIndex'', ''10002''), (''display'', ''none'')]
     [Element ''DIV'' [] [] [] [],
      Element ''TEXTAREA'' ''mcp-modification-request'' [] [] [],
      Element ''DIV'' [] [] [(''display'', ''flex'')]
        [Element ''BUTTON'' ''mcp-cancel-button'' [] [] [],
         Element ''BUTTON'' ''mcp-submit-button'' [] [] []]]"

definition toggleButtonElement :: element where
  "toggleButtonElement = Element ''BUTTON'' ''mcp-toggle-button'' []
     [(''position'', ''fixed''), (''zIndex'', ''10003'')] []"

definition deviceSizes :: "(string \<times> int \<times> int) list" where
  "deviceSizes =
     [(''Desktop'', 1280, 800), (''iPhone SE'', 375, 667), (''iPhone XR/11'', 414, 896),
      (''iPhone 12/13/14'', 390, 844), (''iPhone 12/13/14 Pro Max'', 428, 926),
      (''iPad'', 768, 1024), (''iPad Pro'', 1024, 1366), (''Galaxy S20'', 360, 800),
      (''Pixel 5'', 393, 851)]"

definition deviceSelectorElement :: element where
  "deviceSelectorElement = Element ''DIV'' ''mcp-device-selector'' []
     [(''position'', ''fixed''), (''zIndex'', ''10003''), (''display'', ''flex'')]
     [Element ''DIV'' [] [] [] [],
      Element ''SELECT'' ''mcp-device-dropdown'' [] []
        (map (\<lambda>device. Element ''OPTION'' [] [] [] []) deviceSizes),
      Element ''DIV'' [] [] [(''display'', ''flex'')]
        [Element ''INPUT'' ''mcp-width-input'' [] [] [],
         Element ''INPUT'' ''mcp-height-input'' [] [] []],
      Element ''BUTTON'' ''mcp-apply-size'' [] [] []]"

text \<open>The box \<^verbatim>\<open>createHighlightBox\<close> builds, on the first hover.\<close>

definition highlightElement :: element where
  "highlightElement = Element ''DIV'' ''mcp-inspector-highlight'' []
     [(''position'', ''fixed''), (''pointerEvents'', ''none''), (''zIndex'', ''2147483647''),
      (''display'', ''none'')] []"

text \<open>The ids the script removes before it creates anything.\<close>

definition existingElements :: "string list" where
  "existingElements =
     [''mcp-inspector-overlay'', ''mcp-inspector-info'', ''mcp-inspector-dialog'',
      ''mcp-inspector-highlight'', ''mcp-toggle-button'']"

definition removeExisting :: "element \<Rightarrow> element" where
  "removeExisting doc =
     fold (\<lambda>i d. case getElementById d i of None \<Rightarrow> d | Some n \<Rightarrow> removeNode d n)
       existingElements doc"

text \<open>Reading a z-index back as a number.\<close>

definition digitValue :: "char \<Rightarrow> int option" where
  "digitValue c = map_of (zip ''0123456789'' [0, 1, 2, 3, 4, 5, 6, 7, 8, 9]) c"

fun readDecimal :: "int \<Rightarrow> string \<Rightarrow> int option" where
  "readDecimal acc [] = Some acc"
| "readDecimal acc (c # cs) =
     (case digitValue c of None \<Rightarrow> None | Some d \<Rightarrow> readDecimal (10 * acc + d) cs)"

definition zIndex :: "element \<Rightarrow> int option" where
  "zIndex e =
     (case map_of (style e) ''zIndex'' of
        None \<Rightarrow> None
      | Some v \<Rightarrow> if v = [] then None else readDecimal 0 v)"

section \<open>The page and the state of the toggle-button script\<close>

text \<open>
  Text typed by the operator is a JavaScript string, a sequence of UTF-16 code units.
  \<^verbatim>\<open>String.prototype.trim\<close> strips the ECMAScript white space and line terminator
  code units from both ends.
\<close>

type_synonym jsstring = "16 word list"

definition isWhiteSpace :: "16 word \<Rightarrow> bool" where
  "isWhiteSpace c =
     (c \<in> set [0x9, 0xA, 0xB, 0xC, 0xD, 0x20, 0xA0, 0x1680, 0x2000, 0x2001, 0x2002, 0x2003,
               0x2004, 0x2005, 0x2006, 0x2007, 0x2008, 0x2009, 0x200A, 0x2028, 0x2029,
               0x202F, 0x205F, 0x3000, 0xFEFF])"

definition trim :: "jsstring \<Rightarrow> jsstring" where
  "trim s = rev (dropWhile isWhiteSpace (rev (dropWhile isWhiteSpace s)))"

text \<open>
  The record \<^verbatim>\<open>submitModificationRequest\<close> stores in \<^verbatim>\<open>window.selectedElement\<close>.
\<close>

record selection =
  element :: node
  selector :: string
  html :: string
  css :: "(string \<times> string) list"
  modificationRequest :: jsstring

text \<open>
  What the browser computes for an element and the script only copies: the serialised
  markup and the computed style.
\<close>

record platform =
  outerHTML :: "element \<Rightarrow> node \<Rightarrow> string"
  getComputedStyle :: "element \<Rightarrow> node \<Rightarrow> (string \<times> string) list"

text \<open>What \<^verbatim>\<open>updateInfoPanel\<close> and the other writers put into the info panel.\<close>

datatype info_html =
  InitialHint
  | ElementInfo node
  | SelectedInfo node
  | RequestSubmitted jsstring

text \<open>
  The highlight box once created: the element whose bounding rectangle it was given,
  the palette (\<open>True\<close> for the green, selected one) and whether it is displayed.
\<close>

record highlight =
  boxOn :: node
  boxSelected :: bool
  boxDisplay :: bool

text \<open>
  The page: its document, the global \<^verbatim>\<open>window.selectedElement\<close>, and the closure of
  the injected script. \<open>overlay\<close>, \<open>infoPanel\<close>, \<open>dialogBox\<close> and \<open>toggleButton\<close> are the
  script's constants of these names; \<open>cancelButton\<close>, \<open>submitButton\<close> and \<open>applyButton\<close>
  are the elements \<^verbatim>\<open>getElementById\<close> found when the script attached its click
  listeners to them. The five \<^verbatim>\<open>let\<close> variables keep their names. The remaining
  fields are the properties of the created nodes that the handlers change later:
  \<^verbatim>\<open>style.display\<close> of the overlay, the panel and the dialog, the panel's
  \<^verbatim>\<open>innerHTML\<close>, the element the dialog was positioned next to, the value of
  the textarea \<open>mcp-modification-request\<close>, the label of the toggle button, the numbers
  in the two size inputs and the last size given to \<^verbatim>\<open>window.resizeTo\<close>.
  The record follows the closure of the latest injection; listeners that an earlier
  injection registered on the document are not part of it.
\<close>

record page =
  document :: element
  windowSelectedElement :: "selection option"
  injected :: bool
  overlay :: node
  infoPanel :: node
  dialogBox :: node
  toggleButton :: node
  cancelButton :: "node option"
  submitButton :: "node option"
  applyButton :: "node option"
  currentElement :: "node option"
  selectedElement :: "node option"
  highlightBox :: "highlight option"
  isSelectionLocked :: bool
  isSelectionModeActive :: bool
  overlayDisplay :: bool
  infoPanelDisplay :: bool
  infoPanelHTML :: info_html
  dialogDisplay :: bool
  dialogAnchor :: "node option"
  textareaValue :: jsstring
  toggleButtonHTML :: string
  widthInput :: "int option"
  heightInput :: "int option"
  windowSize :: "(int \<times> int) option"

text \<open>A page as the browser loads it, before any injection.\<close>

definition loadedPage :: "element \<Rightarrow> page" where
  "loadedPage doc =
     \<lparr>document = doc, windowSelectedElement = None, injected = False,
      overlay = [], infoPanel = [], dialogBox = [], toggleButton = [],
      cancelButton = None, submitButton = None, applyButton = None,
      currentElement = None, selectedElement = None, highlightBox = None,
      isSelectionLocked = False, isSelectionModeActive = False,
      overlayDisplay = False, infoPanelDisplay = False, infoPanelHTML = InitialHint,
      dialogDisplay = False, dialogAnchor = None, textareaValue = [],
      toggleButtonHTML = [], widthInput = None, heightInput = None, windowSize = None\<rparr>"

subsection \<open>The injection\<close>

text \<open>
  The function given to \<^verbatim>\<open>page.evaluate\<close> by \<^verbatim>\<open>inspectElement\<close>: remove the
  listed ids, append the overlay, the info panel, the dialog, the toggle button and the
  device selector to the body, initialise the closure, attach the listeners.
  \<^verbatim>\<open>document.body.appendChild\<close> throws on a document without a body; the removals
  have happened by then. The size inputs are looked up by id whenever they are used, so
  after a second injection they are still the inputs of the first device selector, which
  no injection removes, and keep their values.
\<close>

definition injectScript :: "page \<Rightarrow> (string \<times> page) + page" where
  "injectScript p =
     (let doc0 = removeExisting (document p) in
      case body doc0 of
        None \<Rightarrow> Inl (''TypeError'', p\<lparr>document := doc0\<rparr>)
      | Some b \<Rightarrow>
          (case nodeAt doc0 b of
             None \<Rightarrow> Inl (''TypeError'', p\<lparr>document := doc0\<rparr>)
           | Some bodyElement \<Rightarrow>
               let n = length (children bodyElement);
                   doc1 = fold (\<lambda>e d. appendChild d b e)
                            [overlayElement, infoPanelElement, dialogBoxElement,
                             toggleButtonElement, deviceSelectorElement] doc0
               in Inr (p\<lparr>document := doc1, injected := True,
                         overlay := n # b, infoPanel := (n + 1) # b,
                         dialogBox := (n + 2) # b, toggleButton := (n + 3) # b,
                         cancelButton := getElementById doc1 ''mcp-cancel-button'',
                         submitButton := getElementById doc1 ''mcp-submit-button'',
                         applyButton := getElementById doc1 ''mcp-apply-size'',
                         currentElement := None, selectedElement := None,
                         highlightBox := None, isSelectionLocked := False,
                         isSelectionModeActive := False,
                         overlayDisplay := False, infoPanelDisplay := False,
                         infoPanelHTML := InitialHint, dialogDisplay := False,
                         dialogAnchor := None, textareaValue := [],
                         toggleButtonHTML := ''Select Element'',
                         widthInput :=
                           (if getElementById doc0 ''mcp-width-input'' = None then None
                            else widthInput p),
                         heightInput :=
                           (if getElementById doc0 ''mcp-height-input'' = None then None
                            else heightInput p)\<rparr>)))"

subsection \<open>The functions of the script\<close>

definition idOf :: "element \<Rightarrow> node \<Rightarrow> string" where
  "idOf doc n = (case nodeAt doc n of None \<Rightarrow> [] | Some e \<Rightarrow> elemId e)"

text \<open>
  \<^verbatim>\<open>updateHighlightBox\<close> creates the box on first use, appending it to the body,
  then gives it the element's rectangle, shows it and picks the palette.
\<close>

definition createHighlightBox :: "page \<Rightarrow> page" where
  "createHighlightBox p =
     (case body (document p) of
        None \<Rightarrow> p
      | Some b \<Rightarrow> p\<lparr>document := appendChild (document p) b highlightElement\<rparr>)"

definition updateHighlightBox :: "node \<Rightarrow> bool \<Rightarrow> page \<Rightarrow> page" where
  "updateHighlightBox e isSelected p =
     (let p1 = (if highlightBox p = None then createHighlightBox p else p)
      in p1\<lparr>highlightBox := Some \<lparr>boxOn = e, boxSelected = isSelected, boxDisplay = True\<rparr>\<rparr>)"

definition hideHighlightBox :: "page \<Rightarrow> page" where
  "hideHighlightBox p =
     (case highlightBox p of
        None \<Rightarrow> p
      | Some h \<Rightarrow> p\<lparr>highlightBox := Some (h\<lparr>boxDisplay := False\<rparr>)\<rparr>)"

definition updateInfoPanel :: "node \<Rightarrow> bool \<Rightarrow> page \<Rightarrow> page" where
  "updateInfoPanel e isSelected p =
     p\<lparr>infoPanelHTML := (if isSelected then SelectedInfo e else ElementInfo e),
       infoPanelDisplay := True\<rparr>"

definition positionDialog :: "node \<Rightarrow> page \<Rightarrow> page" where
  "positionDialog e p = p\<lparr>dialogAnchor := Some e, dialogDisplay := True\<rparr>"

definition hideDialog :: "page \<Rightarrow> page" where
  "hideDialog p =
     (let p1 = p\<lparr>dialogDisplay := False\<rparr>
      in if getElementById (document p1) ''mcp-modification-request'' \<noteq> None
         then p1\<lparr>textareaValue := []\<rparr> else p1)"

text \<open>
  \<^verbatim>\<open>submitModificationRequest\<close>. The selected element is an element of the document
  in every state the handlers reach, so its selector exists; the case without one
  changes nothing.
\<close>

definition submitModificationRequest :: "platform \<Rightarrow> page \<Rightarrow> page" where
  "submitModificationRequest env p =
     (if getElementById (document p) ''mcp-modification-request'' \<noteq> None
      then (case selectedElement p of
              None \<Rightarrow> p
            | Some s \<Rightarrow>
                let request = trim (textareaValue p) in
                if request \<noteq> []
                then (case getSelector (document p) s of
                        None \<Rightarrow> p
                      | Some sel \<Rightarrow>
                          hideDialog
                            (p\<lparr>windowSelectedElement :=
                                 Some \<lparr>element = s, selector = sel,
                                       html = outerHTML env (document p) s,
                                       css = getComputedStyle env (document p) s,
                                       modificationRequest = request\<rparr>,
                               infoPanelHTML := RequestSubmitted request\<rparr>))
                else p)
      else p)"

definition toggleSelectionMode :: "page \<Rightarrow> page" where
  "toggleSelectionMode p =
     (let p1 = p\<lparr>isSelectionModeActive := \<not> isSelectionModeActive p\<rparr> in
      if isSelectionModeActive p1
      then hideDialog
             (p1\<lparr>toggleButtonHTML := ''Selection Mode: ON'', overlayDisplay := True,
                 infoPanelDisplay := True, isSelectionLocked := False,
                 selectedElement := None\<rparr>)
      else (hideDialog
              (hideHighlightBox
                 (p1\<lparr>toggleButtonHTML := ''Select Element'', overlayDisplay := False,
                     infoPanelDisplay := False\<rparr>)))
             \<lparr>isSelectionLocked := False, selectedElement := None, currentElement := None\<rparr>)"

text \<open>The \<^verbatim>\<open>mouseover\<close> listener on the document.\<close>

definition onMouseOver :: "node \<Rightarrow> page \<Rightarrow> page" where
  "onMouseOver target p =
     (if \<not> isSelectionModeActive p \<or> isSelectionLocked p then p
      else if target \<noteq> overlay p \<and> target \<noteq> infoPanel p \<and> \<not> contains (infoPanel p) target
              \<and> target \<noteq> dialogBox p \<and> \<not> contains (dialogBox p) target
              \<and> target \<noteq> toggleButton p
              \<and> idOf (document p) target \<noteq> ''mcp-inspector-highlight''
      then updateInfoPanel target False
             (updateHighlightBox target False (p\<lparr>currentElement := Some target\<rparr>))
      else p)"

text \<open>The \<^verbatim>\<open>click\<close> listener on the document.\<close>

definition onClick :: "platform \<Rightarrow> node \<Rightarrow> page \<Rightarrow> page" where
  "onClick env target p =
     (if target = toggleButton p \<or> contains (toggleButton p) target
      then toggleSelectionMode p
      else if \<not> isSelectionModeActive p then p
      else if idOf (document p) target = ''mcp-cancel-button'' then hideDialog p
      else if idOf (document p) target = ''mcp-submit-button''
        then submitModificationRequest env p
      else if contains (dialogBox p) target then p
      else if contains (infoPanel p) target then p
      else if isSelectionLocked p \<and> selectedElement p \<noteq> None
              \<and> (case selectedElement p of
                    None \<Rightarrow> False
                  | Some s \<Rightarrow> s = target \<or> contains s target)
        then (case selectedElement p of
                None \<Rightarrow> p
              | Some s \<Rightarrow> positionDialog s p)
      else if isSelectionLocked p
        then (let p1 = hideDialog (p\<lparr>isSelectionLocked := False, selectedElement := None\<rparr>)
              in if target \<noteq> overlay p1
                    \<and> idOf (document p1) target \<noteq> ''mcp-inspector-highlight''
                 then updateInfoPanel target False
                        (updateHighlightBox target False (p1\<lparr>currentElement := Some target\<rparr>))
                 else p1)
      else (case currentElement p of
              None \<Rightarrow> p
            | Some c \<Rightarrow>
                updateInfoPanel c True
                  (updateHighlightBox c True
                     (p\<lparr>isSelectionLocked := True, selectedElement := Some c\<rparr>))))"

text \<open>The viewport sizer.\<close>

definition resizeWindow :: "int \<Rightarrow> int \<Rightarrow> page \<Rightarrow> page" where
  "resizeWindow width height p =
     (let p1 = p\<lparr>windowSize := Some (width + 16, height + 88)\<rparr>
      in if getElementById (document p1) ''mcp-width-input'' \<noteq> None
            \<and> getElementById (document p1) ''mcp-height-input'' \<noteq> None
         then p1\<lparr>widthInput := Some width, heightInput := Some height\<rparr>
         else p1)"

text \<open>
  The \<^verbatim>\<open>change\<close> listener of the device dropdown; the argument is what
  \<^verbatim>\<open>parseInt(dropdown.value)\<close> gives, \<open>None\<close> for \<open>NaN\<close>.
\<close>

definition onDeviceChange :: "int option \<Rightarrow> page \<Rightarrow> page" where
  "onDeviceChange selectedIndex p =
     (case selectedIndex of
        None \<Rightarrow> p
      | Some i \<Rightarrow>
          if i \<ge> 0 \<and> i < int (length deviceSizes)
          then (case deviceSizes ! nat i of (name, w, h) \<Rightarrow> resizeWindow w h p)
          else p)"

text \<open>The \<^verbatim>\<open>click\<close> listener of the apply button.\<close>

definition onApplySize :: "page \<Rightarrow> page" where
  "onApplySize p =
     (case (widthInput p, heightInput p) of
        (Some width, Some height) \<Rightarrow>
          if width > 0 \<and> height > 0 then resizeWindow width height p else p
      | _ \<Rightarrow> p)"

subsection \<open>Events\<close>

text \<open>
  What can happen in an injected page. A click bubbles from its target to the document:
  the listeners on the apply, cancel and submit buttons run first and stop the
  propagation, so the document's listener sees every other click. Typing sets the value
  of the textarea or of the size inputs (as \<^verbatim>\<open>parseInt\<close> will read them).
  Nothing is listening in a page that was not injected.
\<close>

datatype event =
  MouseOver node
  | Click node
  | TypeRequest jsstring
  | TypeSize "int option" "int option"
  | ChangeDevice "int option"

definition listens :: "node option \<Rightarrow> node \<Rightarrow> bool" where
  "listens button target = (case button of None \<Rightarrow> False | Some b \<Rightarrow> contains b target)"

definition dispatchClick :: "platform \<Rightarrow> node \<Rightarrow> page \<Rightarrow> page" where
  "dispatchClick env target p =
     (if listens (applyButton p) target then onApplySize p
      else if listens (cancelButton p) target then hideDialog p
      else if listens (submitButton p) target then submitModificationRequest env p
      else onClick env target p)"

fun handleEvent :: "platform \<Rightarrow> event \<Rightarrow> page \<Rightarrow> page" where
  "handleEvent env (MouseOver target) p = (if injected p then onMouseOver target p else p)"
| "handleEvent env (Click target) p = (if injected p then dispatchClick env target p else p)"
| "handleEvent env (TypeRequest txt) p = (if injected p then p\<lparr>textareaValue := txt\<rparr> else p)"
| "handleEvent env (TypeSize w h) p =
     (if injected p then p\<lparr>widthInput := w, heightInput := h\<rparr> else p)"
| "handleEvent env (ChangeDevice i) p = (if injected p then onDeviceChange i p else p)"

definition handleEvents :: "platform \<Rightarrow> event list \<Rightarrow> page \<Rightarrow> page" where
  "handleEvents env evs p = fold (handleEvent env) evs p"

subsection \<open>The selection states\<close>

text \<open>
  The four states of the selection state machine, read off the closure: \<open>Idle\<close> while
  selection mode is off; with the mode on, \<open>Hovering\<close> the current element until a click
  locks it, then \<open>Locked\<close>, and \<open>DialogOpen\<close> while the dialog is displayed.
\<close>

datatype selection_state = Idle | Hovering "node option" | Locked node | DialogOpen node

definition selectionState :: "page \<Rightarrow> selection_state" where
  "selectionState p =
     (if \<not> isSelectionModeActive p then Idle
      else if isSelectionLocked p
        then (case selectedElement p of
                None \<Rightarrow> Hovering (currentElement p)
              | Some s \<Rightarrow> if dialogDisplay p then DialogOpen s else Locked s)
      else Hovering (currentElement p))"

text \<open>
  No page element is hovered, selected or locked and the dialog is closed: the state the
  injection and every toggle-off leave behind.
\<close>

definition nothingSelected :: "page \<Rightarrow> bool" where
  "nothingSelected p =
     (currentElement p = None \<and> selectedElement p = None \<and> \<not> isSelectionLocked p
      \<and> \<not> dialogDisplay p)"

text \<open>
  The surfaces of the script: the info panel, the dialog, the toggle button and the
  device picker (any element below a node with the id \<open>mcp-device-selector\<close>).
\<close>

definition engineSurface :: "page \<Rightarrow> node \<Rightarrow> bool" where
  "engineSurface p target =
     (contains (infoPanel p) target \<or> contains (dialogBox p) target
      \<or> contains (toggleButton p) target
      \<or> list_ex (\<lambda>a. idOf (document p) a = ''mcp-device-selector'') (suffixes target))"

text \<open>\<open>Idle\<close> as the injection and the toggle-off leave it: mode off and nothing selected.\<close>

definition idle :: "page \<Rightarrow> bool" where
  "idle p = (\<not> isSelectionModeActive p \<and> nothingSelected p)"

text \<open>
  Stacking: all these nodes are positioned children of the body, so the one with the
  smaller z-index is painted below the other.
\<close>

definition below :: "element \<Rightarrow> element \<Rightarrow> bool" where
  "below a b = (case (zIndex a, zIndex b) of (Some x, Some y) \<Rightarrow> x < y | _ \<Rightarrow> False)"

section \<open>The server: the five tools\<close>

text \<open>
  The module-level state of the server: \<^verbatim>\<open>browser\<close>, \<^verbatim>\<open>page\<close> and
  \<^verbatim>\<open>elementInfo\<close>, each null at start. The page handle stands for the page it drives,
  so its state is the state of that page. The fields of \<^verbatim>\<open>elementInfo\<close> are called
  \<open>infoSelector\<close>, \<open>infoHtml\<close> and \<open>infoCss\<close> here, since the record in the page already
  uses the plain names.
\<close>

datatype browser_handle = Browser

record element_info =
  infoSelector :: string
  infoHtml :: string
  infoCss :: string

record server =
  browser :: "browser_handle option"
  page :: "page option"
  elementInfo :: "element_info option"

definition initialServer :: server where
  "initialServer = \<lparr>browser = None, page = None, elementInfo = None\<rparr>"

text \<open>
  What a tool returns: its content items and the \<^verbatim>\<open>isError\<close> flag (absent on
  success).
\<close>

datatype content_item = Text string | Code string string | Image string

record tool_result =
  content :: "content_item list"
  isError :: bool

definition errorResult :: "string \<Rightarrow> tool_result" where
  "errorResult msg = \<lparr>content = [Text msg], isError = True\<rparr>"

text \<open>
  The arguments of \<^verbatim>\<open>launch_browser\<close> and \<^verbatim>\<open>modify_element\<close>, typed as the
  tools' input schemas say; a call without an arguments object passes \<open>None\<close>.
\<close>

record launch_args =
  url :: "string option"

record modify_args =
  cssArg :: "(string \<times> string) list option"
  htmlArg :: "string option"

text \<open>
  What the browser automation and the browser do during one tool call. Each awaited call
  can reject; \<open>Some msg\<close> or \<open>Inl msg\<close> is the rejection, with the text
  \<^verbatim>\<open>${error}\<close> prints. \<open>loadDocument\<close> is the document a URL loads,
  \<open>querySelector\<close> the page's native query (it throws on a selector it cannot parse),
  \<open>parseHTML\<close> the elements an \<^verbatim>\<open>outerHTML\<close> assignment parses, \<open>stringify\<close> is
  \<^verbatim>\<open>JSON.stringify(css, null, 2)\<close>.
\<close>

record driver =
  closeFails :: "string option"
  launchFails :: "string option"
  newPageFails :: "string option"
  gotoFails :: "string option"
  evaluateFails :: "string option"
  screenshot :: "string + string"
  loadDocument :: "string \<Rightarrow> element"
  querySelector :: "element \<Rightarrow> string \<Rightarrow> string + node option"
  parseHTML :: "string \<Rightarrow> element list"
  stringify :: "(string \<times> string) list \<Rightarrow> string"

definition blankDocument :: element where
  "blankDocument = Element ''HTML'' [] [] []
     [Element ''HEAD'' [] [] [] [], Element ''BODY'' [] [] [] []]"

text \<open>
  \<^verbatim>\<open>closeBrowser\<close>: with a browser, close it and null the three variables; the
  rejection of \<^verbatim>\<open>browser.close()\<close> leaves them as they were.
\<close>

definition closeBrowser :: "driver \<Rightarrow> server \<Rightarrow> string + server" where
  "closeBrowser env st =
     (case browser st of
        None \<Rightarrow> Inr st
      | Some b \<Rightarrow>
          (case closeFails env of
             Some err \<Rightarrow> Inl err
           | None \<Rightarrow> Inr (st\<lparr>browser := None, page := None, elementInfo := None\<rparr>)))"

definition closeBrowserTool :: "driver \<Rightarrow> server \<Rightarrow> tool_result \<times> server" where
  "closeBrowserTool env st =
     (case closeBrowser env st of
        Inl err \<Rightarrow> (errorResult (''Error closing browser: '' @ err), st)
      | Inr st1 \<Rightarrow> (\<lparr>content = [Text ''Browser closed successfully.''], isError = False\<rparr>, st1))"

text \<open>\<^verbatim>\<open>launchBrowser\<close>. Reading \<^verbatim>\<open>args.url\<close> of a missing arguments object throws.\<close>

definition launchBrowser :: "driver \<Rightarrow> launch_args option \<Rightarrow> server \<Rightarrow> tool_result \<times> server" where
  "launchBrowser env args st =
     (case (if browser st \<noteq> None then closeBrowser env st else Inr st) of
        Inl err \<Rightarrow> (errorResult (''Error launching browser: '' @ err), st)
      | Inr st1 \<Rightarrow>
          (case args of
             None \<Rightarrow> (errorResult (''Error launching browser: TypeError''), st1)
           | Some a \<Rightarrow>
               (case url a of
                  None \<Rightarrow> (errorResult ''URL is required'', st1)
                | Some u \<Rightarrow>
                    if u = [] then (errorResult ''URL is required'', st1)
                    else
                      (case launchFails env of
                         Some err \<Rightarrow> (errorResult (''Error launching browser: '' @ err), st1)
                       | None \<Rightarrow>
                           let st2 = st1\<lparr>browser := Some Browser\<rparr> in
                           (case newPageFails env of
                              Some err \<Rightarrow>
                                (errorResult (''Error launching browser: '' @ err), st2)
                            | None \<Rightarrow>
                                let st3 = st2\<lparr>page := Some (loadedPage blankDocument)\<rparr> in
                                (case gotoFails env of
                                   Some err \<Rightarrow>
                                     (errorResult (''Error launching browser: '' @ err), st3)
                                 | None \<Rightarrow>
                                     let st4 = st3\<lparr>page :=
                                                 Some (loadedPage (loadDocument env u))\<rparr> in
                                     (case screenshot env of
                                        Inl err \<Rightarrow>
                                          (errorResult (''Error launching browser: '' @ err), st4)
                                      | Inr shot \<Rightarrow>
                                          (\<lparr>content =
                                              [Text (''Browser launched and navigated to '' @ u),
                                               Image shot],
                                            isError = False\<rparr>, st4))))))))"

definition notLaunched :: tool_result where
  "notLaunched = errorResult ''Browser is not launched. Please launch the browser first.''"

definition noElementSelected :: tool_result where
  "noElementSelected =
     errorResult ''No element selected. Please use the inspect_element tool and click on an element first.''"

text \<open>
  \<^verbatim>\<open>inspectElement\<close>: run the injection in the page, then take the screenshot. A
  throw inside the injected function rejects the evaluation; what the function did
  before stays done.
\<close>

definition inspectElement :: "driver \<Rightarrow> server \<Rightarrow> tool_result \<times> server" where
  "inspectElement env st =
     (case (browser st, page st) of
        (Some b, Some pg) \<Rightarrow>
          (case evaluateFails env of
             Some err \<Rightarrow> (errorResult (''Error enabling inspection mode: '' @ err), st)
           | None \<Rightarrow>
               (case injectScript pg of
                  Inl (err, pg1) \<Rightarrow>
                    (errorResult (''Error enabling inspection mode: '' @ err),
                     st\<lparr>page := Some pg1\<rparr>)
                | Inr pg1 \<Rightarrow>
                    (case screenshot env of
                       Inl err \<Rightarrow>
                         (errorResult (''Error enabling inspection mode: '' @ err),
                          st\<lparr>page := Some pg1\<rparr>)
                     | Inr shot \<Rightarrow>
                         (\<lparr>content =
                             [Text ''Element inspection mode enabled. Click on any element in the browser to select it.'',
                              Image shot],
                           isError = False\<rparr>,
                          st\<lparr>page := Some pg1\<rparr>))))
      | _ \<Rightarrow> (notLaunched, st))"

text \<open>\<^verbatim>\<open>html.substring(0, 500)\<close> with the ellipsis.\<close>

definition htmlPreview :: "string \<Rightarrow> string" where
  "htmlPreview h = take 500 h @ (if length h > 500 then ''...'' else [])"

text \<open>
  \<^verbatim>\<open>getElementInfo\<close>: read \<^verbatim>\<open>window.selectedElement\<close>; when there is one, store
  its selector, markup and style in \<^verbatim>\<open>elementInfo\<close>, then take the screenshot.
\<close>

definition getElementInfo :: "driver \<Rightarrow> server \<Rightarrow> tool_result \<times> server" where
  "getElementInfo env st =
     (case (browser st, page st) of
        (Some b, Some pg) \<Rightarrow>
          (case evaluateFails env of
             Some err \<Rightarrow> (errorResult (''Error getting element info: '' @ err), st)
           | None \<Rightarrow>
               (case windowSelectedElement pg of
                  None \<Rightarrow> (noElementSelected, st)
                | Some r \<Rightarrow>
                    let st1 = st\<lparr>elementInfo :=
                                 Some \<lparr>infoSelector = selector r, infoHtml = html r,
                                       infoCss = stringify env (css r)\<rparr>\<rparr> in
                    (case screenshot env of
                       Inl err \<Rightarrow> (errorResult (''Error getting element info: '' @ err), st1)
                     | Inr shot \<Rightarrow>
                         (\<lparr>content =
                             [Text (''Selected element: '' @ selector r),
                              Text (''HTML: '' @ htmlPreview (html r)),
                              Text ''CSS (computed styles):'',
                              Code ''json'' (stringify env (css r)),
                              Image shot],
                           isError = False\<rparr>, st1))))
      | _ \<Rightarrow> (notLaunched, st))"

text \<open>
  The two functions \<^verbatim>\<open>modifyElement\<close> evaluates in the page:
  \<^verbatim>\<open>element.style[property] = value\<close> for every entry, and
  \<^verbatim>\<open>element.outerHTML = html\<close>, which replaces the element by the parsed markup and
  throws on the root element. Both do nothing when the selector matches no element.
\<close>

definition setStyleProperty :: "string \<Rightarrow> string \<Rightarrow> element \<Rightarrow> element" where
  "setStyleProperty property v e =
     Element (tagName e) (elemId e) (classList e)
       (if property \<in> fst ` set (style e)
        then map (\<lambda>(k, w). if k = property then (k, v) else (k, w)) (style e)
        else style e @ [(property, v)])
       (children e)"

definition applyCss :: "driver \<Rightarrow> string \<Rightarrow> (string \<times> string) list \<Rightarrow> element \<Rightarrow> string + element" where
  "applyCss env sel props doc =
     (case querySelector env doc sel of
        Inl err \<Rightarrow> Inl err
      | Inr None \<Rightarrow> Inr doc
      | Inr (Some n) \<Rightarrow>
          Inr (modifyAt (rev n) (\<lambda>e. fold (\<lambda>(k, v). setStyleProperty k v) props e) doc))"

definition applyHtml :: "driver \<Rightarrow> string \<Rightarrow> string \<Rightarrow> element \<Rightarrow> string + element" where
  "applyHtml env sel markup doc =
     (case querySelector env doc sel of
        Inl err \<Rightarrow> Inl err
      | Inr None \<Rightarrow> Inr doc
      | Inr (Some n) \<Rightarrow>
          (case n of
             [] \<Rightarrow> Inl ''NoModificationAllowedError''
           | i # up \<Rightarrow>
               Inr (modifyAt (rev up)
                      (withChildren (\<lambda>ch. take i ch @ parseHTML env markup @ drop (Suc i) ch))
                      doc)))"

text \<open>
  \<^verbatim>\<open>modifyElement\<close>. An object is truthy, so \<^verbatim>\<open>if (css)\<close> holds for every
  \<open>css\<close> argument that is present; \<^verbatim>\<open>if (html)\<close> holds for a non-empty string.
\<close>

definition modifyElement :: "driver \<Rightarrow> modify_args option \<Rightarrow> server \<Rightarrow> tool_result \<times> server" where
  "modifyElement env args st =
     (case (browser st, page st) of
        (Some b, Some pg) \<Rightarrow>
          (case elementInfo st of
             None \<Rightarrow> (noElementSelected, st)
           | Some info \<Rightarrow>
               (case args of
                  None \<Rightarrow> (errorResult ''Error modifying element: TypeError'', st)
                | Some a \<Rightarrow>
                    (case (case cssArg a of
                             None \<Rightarrow> Inr (document pg)
                           | Some props \<Rightarrow>
                               (case evaluateFails env of
                                  Some err \<Rightarrow> Inl err
                                | None \<Rightarrow> applyCss env (infoSelector info) props (document pg)))
                     of
                       Inl err \<Rightarrow> (errorResult (''Error modifying element: '' @ err), st)
                     | Inr doc1 \<Rightarrow>
                         let st1 = st\<lparr>page := Some (pg\<lparr>document := doc1\<rparr>)\<rparr> in
                         (case (case htmlArg a of
                                  None \<Rightarrow> Inr doc1
                                | Some markup \<Rightarrow>
                                    if markup = [] then Inr doc1
                                    else
                                      (case evaluateFails env of
                                         Some err \<Rightarrow> Inl err
                                       | None \<Rightarrow> applyHtml env (infoSelector info) markup doc1))
                          of
                            Inl err \<Rightarrow> (errorResult (''Error modifying element: '' @ err), st1)
                          | Inr doc2 \<Rightarrow>
                              let st2 = st\<lparr>page := Some (pg\<lparr>document := doc2\<rparr>)\<rparr> in
                              (case screenshot env of
                                 Inl err \<Rightarrow>
                                   (errorResult (''Error modifying element: '' @ err), st2)
                               | Inr shot \<Rightarrow>
                                   (\<lparr>content =
                                       [Text (''Element '' @ infoSelector info
                                              @ '' modified successfully.''),
                                        Image shot],
                                     isError = False\<rparr>, st2))))))
      | _ \<Rightarrow> (notLaunched, st))"

subsection \<open>Runs of the whole system\<close>

text \<open>
  One step of the system is a tool call, with what the browser does during it, or an
  event in the page of the open session.
\<close>

datatype action =
  Launch driver "launch_args option"
  | Inspect driver
  | GetInfo driver
  | Modify driver "modify_args option"
  | Close driver
  | InPage platform event

fun perform :: "action \<Rightarrow> server \<Rightarrow> tool_result option \<times> server" where
  "perform (Launch env args) st = map_prod Some id (launchBrowser env args st)"
| "perform (Inspect env) st = map_prod Some id (inspectElement env st)"
| "perform (GetInfo env) st = map_prod Some id (getElementInfo env st)"
| "perform (Modify env args) st = map_prod Some id (modifyElement env args st)"
| "perform (Close env) st = map_prod Some id (closeBrowserTool env st)"
| "perform (InPage env ev) st =
     (None, case page st of None \<Rightarrow> st | Some pg \<Rightarrow> st\<lparr>page := Some (handleEvent env ev pg)\<rparr>)"

definition runActions :: "action list \<Rightarrow> server \<Rightarrow> server" where
  "runActions acts st = fold (\<lambda>a s. snd (perform a s)) acts st"

text \<open>Whether the page of the open session holds a committed selection record.\<close>

definition recordCommitted :: "server \<Rightarrow> bool" where
  "recordCommitted st =
     (case page st of None \<Rightarrow> False | Some pg \<Rightarrow> windowSelectedElement pg \<noteq> None)"

text \<open>No record is committed before or during the run.\<close>

fun uncommitted :: "action list \<Rightarrow> server \<Rightarrow> bool" where
  "uncommitted [] st = (\<not> recordCommitted st)"
| "uncommitted (a # acts) st = (\<not> recordCommitted st \<and> uncommitted acts (snd (perform a st)))"

text \<open>
  A \<^verbatim>\<open>get_element_info\<close> call finds a record, and caches it, when a session is open,
  the evaluation goes through and \<^verbatim>\<open>window.selectedElement\<close> is set.
\<close>

fun findsRecord :: "action \<Rightarrow> server \<Rightarrow> bool" where
  "findsRecord (GetInfo env) st =
     (browser st \<noteq> None \<and> evaluateFails env = None \<and> recordCommitted st)"
| "findsRecord a st = False"

fun neverFindsRecord :: "action list \<Rightarrow> server \<Rightarrow> bool" where
  "neverFindsRecord [] st = True"
| "neverFindsRecord (a # acts) st =
     (\<not> findsRecord a st \<and> neverFindsRecord acts (snd (perform a st)))"

subsection \<open>A small page to run the script on\<close>

text \<open>
  A document with a button \<open>#go\<close> and a paragraph in its body, a browser that answers
  with fixed markup and style, and ASCII text as code units.
\<close>

definition demoDocument :: element where
  "demoDocument = Element ''HTML'' [] [] []
     [Element ''HEAD'' [] [] [] [],
      Element ''BODY'' [] [] []
        [Element ''BUTTON'' ''go'' [] [] [], Element ''P'' [] [] [] []]]"

definition demoPlatform :: platform where
  "demoPlatform =
     \<lparr>outerHTML = (\<lambda>doc n. ''<button id=go>Go</button>''),
      getComputedStyle = (\<lambda>doc n. [(''display'', ''inline-block'')])\<rparr>"

definition ascii :: "string \<Rightarrow> jsstring" where
  "ascii s = map (\<lambda>c. of_nat (of_char c)) s"

definition demoPage :: page where
  "demoPage = (case injectScript (loadedPage demoDocument) of Inl (m, p) \<Rightarrow> p | Inr p \<Rightarrow> p)"

text \<open>
  Toggle on, hover the button, click it twice, type a request: the dialog is open on
  \<open>#go\<close>. In \<open>demoPage\<close> the button is node \<open>[0, 1]\<close>, the toggle button \<open>[5, 1]\<close>,
  the submit button \<open>[1, 2, 4, 1]\<close>.
\<close>

definition demoDialogOpen :: page where
  "demoDialogOpen =
     handleEvents demoPlatform
       [Click [5, 1], MouseOver [0, 1], Click [0, 1], Click [0, 1],
        TypeRequest (ascii ''make this red'')] demoPage"

text \<open>
  A browser for the demo page: every awaited call goes through, a URL loads the demo
  document, the native query resolves \<open>#id\<close> selectors.
\<close>

definition demoDriver :: driver where
  "demoDriver =
     \<lparr>closeFails = None, launchFails = None, newPageFails = None, gotoFails = None,
      evaluateFails = None, screenshot = Inr ''iVBORw0KGgo='',
      loadDocument = (\<lambda>u. demoDocument),
      querySelector = (\<lambda>doc sel. case sel of [] \<Rightarrow> Inl ''SyntaxError''
                         | c # i \<Rightarrow> if c = CHR ''#'' then Inr (getElementById doc i) else Inr None),
      parseHTML = (\<lambda>markup. [Element ''SPAN'' [] [] [] []]),
      stringify = (\<lambda>props. concat (map (\<lambda>(k, v). k @ '':'' @ v @ '';'') props))\<rparr>"

text \<open>
  A session on the demo page: launch; inject, toggle on, hover and click \<open>#go\<close> twice and
  type a request; click the submit button.
\<close>

definition demoLaunch :: action where
  "demoLaunch = Launch demoDriver (Some \<lparr>url = Some ''http://example.com''\<rparr>)"

definition demoDraft :: "action list" where
  "demoDraft =
     [Inspect demoDriver,
      InPage demoPlatform (Click [5, 1]), InPage demoPlatform (MouseOver [0, 1]),
      InPage demoPlatform (Click [0, 1]), InPage demoPlatform (Click [0, 1]),
      InPage demoPlatform (TypeRequest (ascii ''make this red''))]"

definition demoSubmit :: action where
  "demoSubmit = InPage demoPlatform (Click [1, 2, 4, 1])"

definition demoModify :: "modify_args option" where
  "demoModify = Some \<lparr>cssArg = Some [(''color'', ''red'')], htmlArg = None\<rparr>"

text \<open>Writing the page's record slot from outside, to compare runs that differ in it only.\<close>

definition setSlot :: "selection option \<Rightarrow> server \<Rightarrow> server" where
  "setSlot r st = st\<lparr>page := map_option (\<lambda>pg. pg\<lparr>windowSelectedElement := r\<rparr>) (page st)\<rparr>"

text \<open>
  In every state the server reaches, \<^verbatim>\<open>elementInfo\<close> is set only while a browser is.
\<close>

definition sessionInvariant :: "server \<Rightarrow> bool" where
  "sessionInvariant st = (browser st = None \<longrightarrow> elementInfo st = None)"

section \<open>The floating-icon script\<close>

text \<open>
  The second \<^verbatim>\<open>index.ts\<close> injects a floating icon, a toolbar and a resolution picker.
  Its nodes, with the same choice of style properties as before.
\<close>

definition floatingIconElement :: element where
  "floatingIconElement = Element ''DIV'' ''mcp-floating-icon'' []
     [(''position'', ''fixed''), (''zIndex'', ''2147483647''), (''display'', ''flex'')]
     [Element ''svg'' [] [] [] [Element ''path'' [] [] [] [], Element ''path'' [] [] [] []]]"

definition toolbarElement :: element where
  "toolbarElement = Element ''DIV'' ''mcp-toolbar'' []
     [(''position'', ''fixed''), (''display'', ''none''), (''zIndex'', ''10002'')]
     [Element ''BUTTON'' ''mcp-select-element-btn'' [] [] [],
      Element ''BUTTON'' ''mcp-change-resolution-btn'' [] [] []]"

definition resolutionPickerElement :: element where
  "resolutionPickerElement = Element ''DIV'' ''mcp-resolution-picker'' []
     [(''position'', ''fixed''), (''display'', ''none''), (''zIndex'', ''10004'')]
     [Element ''DIV'' ''mcp-close-resolution'' [] [(''position'', ''absolute'')] []]"

text \<open>
  The nodes the script appends to the body later and removes again: the highlight box of
  \<^verbatim>\<open>highlightElement\<close>, the dialog box of a selection and the notification of a
  sent message. A dialog is known by the number of the selection that created it; it
  carries the text in its textarea and the selections whose cancel and send listeners
  are attached to its two buttons (\<^verbatim>\<open>getElementById\<close> finds the buttons of the first
  dialog in the document, which need not be the new one).
\<close>

datatype extra =
  HighlightBox
  | DialogBox nat jsstring "nat list" "nat list"
  | Notification

fun extraElement :: "extra \<Rightarrow> element" where
  "extraElement HighlightBox =
     Element ''DIV'' [] [''mcp-element-highlight'']
       [(''position'', ''fixed''), (''pointerEvents'', ''none''), (''zIndex'', ''2147483646'')] []"
| "extraElement (DialogBox no draft cancels sends) =
     Element ''DIV'' ''mcp-dialog-box'' []
       [(''position'', ''fixed''), (''zIndex'', ''2147483647'')]
       [Element ''H3'' [] [] [] [],
        Element ''P'' [] [] [] [],
        Element ''TEXTAREA'' ''mcp-message-input'' [] [] [],
        Element ''DIV'' [] [] [(''display'', ''flex'')]
          [Element ''BUTTON'' ''mcp-cancel-btn'' [] [] [],
           Element ''BUTTON'' ''mcp-send-btn'' [] [] []]]"
| "extraElement Notification =
     Element ''DIV'' [] [] [(''position'', ''fixed''), (''zIndex'', ''2147483647'')] []"

text \<open>What this script stores in \<^verbatim>\<open>window.selectedElement\<close>.\<close>

record picked =
  pickedSelector :: string
  pickedHtml :: string
  pickedCss :: "(string \<times> string) list"

text \<open>
  The page under the floating-icon script. \<open>baseDocument\<close> is the document with the
  three injected nodes; \<open>extras\<close> are the nodes appended to its body since, in document
  order. \<open>floatingIcon\<close>, \<open>toolbar\<close> and \<open>resolutionPicker\<close> are the script's constants;
  the three flags are its \<^verbatim>\<open>let\<close> variables (\<open>selectionMode\<close> is
  \<^verbatim>\<open>isSelectionModeActive\<close>). \<open>captureListeners\<close> counts how often selection mode
  was switched on: each time registers one more \<^verbatim>\<open>mouseover\<close> listener and one more
  capturing \<^verbatim>\<open>click\<close> listener on the document. The green tint the script gives the
  selected element and takes back later is left out.
\<close>

record floating =
  baseDocument :: element
  extras :: "extra list"
  floatingIcon :: node
  toolbar :: node
  resolutionPicker :: node
  isToolbarVisible :: bool
  isResolutionPickerVisible :: bool
  selectionMode :: bool
  captureListeners :: nat
  nextDialog :: nat
  windowSelected :: "picked option"
  selectedElementMessage :: "jsstring option"

definition currentDocument :: "floating \<Rightarrow> element" where
  "currentDocument f =
     (case body (baseDocument f) of
        None \<Rightarrow> baseDocument f
      | Some b \<Rightarrow>
          modifyAt (rev b) (withChildren (\<lambda>ch. ch @ map extraElement (extras f)))
            (baseDocument f))"

text \<open>The function given to \<^verbatim>\<open>page.evaluate\<close>, on a page as loaded.\<close>

definition injectFloating :: "element \<Rightarrow> string + floating" where
  "injectFloating doc =
     (case body doc of
        None \<Rightarrow> Inl ''TypeError''
      | Some b \<Rightarrow>
          (case nodeAt doc b of
             None \<Rightarrow> Inl ''TypeError''
           | Some bodyElement \<Rightarrow>
               let n = length (children bodyElement) in
               Inr \<lparr>baseDocument =
                      fold (\<lambda>e d. appendChild d b e)
                        [floatingIconElement, toolbarElement, resolutionPickerElement] doc,
                    extras = [],
                    floatingIcon = n # b, toolbar = (n + 1) # b,
                    resolutionPicker = (n + 2) # b,
                    isToolbarVisible = False, isResolutionPickerVisible = False,
                    selectionMode = False, captureListeners = 0, nextDialog = 0,
                    windowSelected = None, selectedElementMessage = None\<rparr>))"

definition selectElementButton :: "floating \<Rightarrow> node" where
  "selectElementButton f = 0 # toolbar f"

definition changeResolutionButton :: "floating \<Rightarrow> node" where
  "changeResolutionButton f = 1 # toolbar f"

definition closeButton :: "floating \<Rightarrow> node" where
  "closeButton f = 0 # resolutionPicker f"

text \<open>
  Which appended node a position of the current document lies in: its index in
  \<open>extras\<close> and the position inside it.
\<close>

definition inExtra :: "floating \<Rightarrow> node \<Rightarrow> (nat \<times> node) option" where
  "inExtra f n =
     (case (body (baseDocument f), rev n) of
        (Some [bi], r0 # r1 # inner) \<Rightarrow>
          (case nodeAt (baseDocument f) [bi] of
             None \<Rightarrow> None
           | Some bodyElement \<Rightarrow>
               if r0 = bi \<and> r1 \<ge> length (children bodyElement)
                  \<and> r1 - length (children bodyElement) < length (extras f)
               then Some (r1 - length (children bodyElement), rev inner)
               else None)
      | _ \<Rightarrow> None)"

definition removeHighlight :: "floating \<Rightarrow> floating" where
  "removeHighlight f = f\<lparr>extras := filter (\<lambda>x. x \<noteq> HighlightBox) (extras f)\<rparr>"

text \<open>\<^verbatim>\<open>highlightElement\<close>: drop the previous box, append a new one.\<close>

definition highlightTarget :: "floating \<Rightarrow> floating" where
  "highlightTarget f = (removeHighlight f)\<lparr>extras := extras (removeHighlight f) @ [HighlightBox]\<rparr>"

fun isDialog :: "nat \<Rightarrow> extra \<Rightarrow> bool" where
  "isDialog n (DialogBox no draft cancels sends) = (no = n)"
| "isDialog n x = False"

text \<open>
  \<^verbatim>\<open>document.body.removeChild(dialogBox)\<close> for the dialog of selection \<open>n\<close>; it
  throws when that dialog is no longer a child of the body, and the listener ends there.
\<close>

definition removeDialog :: "nat \<Rightarrow> floating \<Rightarrow> floating" where
  "removeDialog n f = f\<lparr>extras := filter (\<lambda>x. \<not> isDialog n x) (extras f)\<rparr>"

text \<open>
  Attaching the listeners of selection \<open>n\<close>: to the buttons that
  \<^verbatim>\<open>getElementById('mcp-cancel-btn')\<close> and \<^verbatim>\<open>getElementById('mcp-send-btn')\<close> find
  in the current document, when these are buttons of a dialog.
\<close>

fun addCancel :: "nat \<Rightarrow> extra \<Rightarrow> extra" where
  "addCancel n (DialogBox no draft cancels sends) = DialogBox no draft (cancels @ [n]) sends"
| "addCancel n x = x"

fun addSend :: "nat \<Rightarrow> extra \<Rightarrow> extra" where
  "addSend n (DialogBox no draft cancels sends) = DialogBox no draft cancels (sends @ [n])"
| "addSend n x = x"

definition attach :: "string \<Rightarrow> (extra \<Rightarrow> extra) \<Rightarrow> floating \<Rightarrow> floating" where
  "attach buttonId g f =
     (case getElementById (currentDocument f) buttonId of
        None \<Rightarrow> f
      | Some pos \<Rightarrow>
          (case inExtra f pos of
             None \<Rightarrow> f
           | Some (j, inner) \<Rightarrow> f\<lparr>extras := (extras f)[j := g (extras f ! j)]\<rparr>))"

text \<open>
  The body of the capturing click listener for a target outside the three surfaces:
  store selector, markup and computed style in \<^verbatim>\<open>window.selectedElement\<close>, leave
  selection mode, remove the highlight, append the dialog and attach its listeners.
\<close>

definition selectTarget :: "platform \<Rightarrow> node \<Rightarrow> floating \<Rightarrow> floating" where
  "selectTarget env target f =
     (case getUniqueSelector (currentDocument f) target of
        None \<Rightarrow> f
      | Some sel \<Rightarrow>
          let f1 = f\<lparr>windowSelected :=
                       Some \<lparr>pickedSelector = sel,
                             pickedHtml = outerHTML env (currentDocument f) target,
                             pickedCss = getComputedStyle env (currentDocument f) target\<rparr>,
                     selectionMode := False\<rparr>;
              f2 = removeHighlight f1;
              n = nextDialog f2;
              f3 = f2\<lparr>extras := extras f2 @ [DialogBox n [] [] []], nextDialog := n + 1\<rparr>
          in attach ''mcp-send-btn'' (addSend n) (attach ''mcp-cancel-btn'' (addCancel n) f3))"

definition onSurface :: "floating \<Rightarrow> node \<Rightarrow> bool" where
  "onSurface f target =
     (contains (floatingIcon f) target \<or> contains (toolbar f) target
      \<or> contains (resolutionPicker f) target)"

text \<open>
  The capturing click listeners run first. With selection mode on, the first of them
  stops the propagation and either returns (target on a surface) or selects the target
  and leaves the mode, so the others do nothing. The result says whether the click was
  stopped.
\<close>

definition captureClick :: "platform \<Rightarrow> node \<Rightarrow> floating \<Rightarrow> bool \<times> floating" where
  "captureClick env target f =
     (if captureListeners f > 0 \<and> selectionMode f
      then (True, if onSurface f target then f else selectTarget env target f)
      else (False, f))"

text \<open>The click listener of the select button.\<close>

definition onSelectElementButton :: "floating \<Rightarrow> floating" where
  "onSelectElementButton f =
     (let f1 = f\<lparr>selectionMode := \<not> selectionMode f\<rparr> in
      if selectionMode f1
      then f1\<lparr>isToolbarVisible := False, captureListeners := captureListeners f1 + 1\<rparr>
      else removeHighlight f1)"

text \<open>
  The text of \<^verbatim>\<open>getElementById('mcp-message-input')\<close>: the textarea of the first
  dialog in the document. \<open>None\<close> when the id is not found in a dialog, where reading
  \<^verbatim>\<open>.value\<close> and trimming it throws and the listener ends.
\<close>

fun draftOf :: "extra \<Rightarrow> jsstring option" where
  "draftOf (DialogBox no draft cancels sends) = Some draft"
| "draftOf x = None"

definition messageInput :: "floating \<Rightarrow> jsstring option" where
  "messageInput f =
     (case getElementById (currentDocument f) ''mcp-message-input'' of
        None \<Rightarrow> None
      | Some pos \<Rightarrow>
          (case inExtra f pos of
             None \<Rightarrow> None
           | Some (j, inner) \<Rightarrow> draftOf (extras f ! j)))"

text \<open>The send listener of selection \<open>n\<close>.\<close>

definition sendListener :: "nat \<Rightarrow> floating \<Rightarrow> floating" where
  "sendListener n f =
     (case messageInput f of
        None \<Rightarrow> f
      | Some txt \<Rightarrow>
          let message = trim txt;
              f1 = (if message \<noteq> []
                    then f\<lparr>selectedElementMessage := Some message,
                           extras := extras f @ [Notification]\<rparr>
                    else f)
          in removeDialog n f1)"

text \<open>The cancel listener of selection \<open>n\<close>.\<close>

definition cancelListener :: "nat \<Rightarrow> floating \<Rightarrow> floating" where
  "cancelListener n f = removeDialog n f"

text \<open>
  The listeners on the target and its ancestors, innermost first: the buttons of a
  dialog, the close button of the picker, the two toolbar buttons, the floating icon.
\<close>

definition targetListeners :: "node \<Rightarrow> floating \<Rightarrow> floating" where
  "targetListeners target f =
     (case inExtra f target of
        Some (j, inner) \<Rightarrow>
          (case extras f ! j of
             DialogBox no draft cancels sends \<Rightarrow>
               if contains [0, 3] inner then fold cancelListener cancels f
               else if contains [1, 3] inner then fold sendListener sends f
               else f
           | _ \<Rightarrow> f)
      | None \<Rightarrow>
          if contains (closeButton f) target then f\<lparr>isResolutionPickerVisible := False\<rparr>
          else if contains (changeResolutionButton f) target
            then f\<lparr>isResolutionPickerVisible := \<not> isResolutionPickerVisible f\<rparr>
          else if contains (selectElementButton f) target then onSelectElementButton f
          else if contains (floatingIcon f) target
            then f\<lparr>isToolbarVisible := \<not> isToolbarVisible f\<rparr>
          else f)"

text \<open>
  The bubbling click listener on the document, which closes toolbar and picker on a
  click outside the three surfaces.
\<close>

definition onDocumentClick :: "node \<Rightarrow> floating \<Rightarrow> floating" where
  "onDocumentClick target f =
     (if onSurface f target then f
      else if selectionMode f then f
      else f\<lparr>isToolbarVisible := False, isResolutionPickerVisible := False\<rparr>)"

text \<open>
  A click: the capturing listeners, then, unless they stopped it, the listeners on the
  target's side and the bubbling listener of the document.
\<close>

definition floatingClick :: "platform \<Rightarrow> node \<Rightarrow> floating \<Rightarrow> floating" where
  "floatingClick env target f =
     (case captureClick env target f of
        (True, f1) \<Rightarrow> f1
      | (False, f1) \<Rightarrow> onDocumentClick target (targetListeners target f1))"

text \<open>
  Events of the page: pointer moves and clicks on a node of the current document,
  typing into the textarea of a dialog, and the two-second timer of the oldest
  notification.
\<close>

datatype floating_event =
  Hover node
  | Press node
  | TypeMessage nat jsstring
  | NotificationTimeout

fun setDraft :: "nat \<Rightarrow> jsstring \<Rightarrow> extra \<Rightarrow> extra" where
  "setDraft n txt (DialogBox no draft cancels sends) =
     (if no = n then DialogBox no txt cancels sends else DialogBox no draft cancels sends)"
| "setDraft n txt x = x"

fun removeFirstNotification :: "extra list \<Rightarrow> extra list" where
  "removeFirstNotification [] = []"
| "removeFirstNotification (x # xs) =
     (if x = Notification then xs else x # removeFirstNotification xs)"

fun floatingEvent :: "platform \<Rightarrow> floating_event \<Rightarrow> floating \<Rightarrow> floating" where
  "floatingEvent env (Hover target) f =
     (if captureListeners f > 0 \<and> selectionMode f then highlightTarget f else f)"
| "floatingEvent env (Press target) f = floatingClick env target f"
| "floatingEvent env (TypeMessage n txt) f = f\<lparr>extras := map (setDraft n txt) (extras f)\<rparr>"
| "floatingEvent env NotificationTimeout f =
     f\<lparr>extras := removeFirstNotification (extras f)\<rparr>"

definition floatingEvents :: "platform \<Rightarrow> floating_event list \<Rightarrow> floating \<Rightarrow> floating" where
  "floatingEvents env evs f = fold (floatingEvent env) evs f"

text \<open>
  The demo page under the floating-icon script: the icon is node \<open>[2, 1]\<close>, the select
  button \<open>[0, 3, 1]\<close>; the first node appended later is \<open>[5, 1]\<close>, so the send button of
  a dialog appended first is \<open>[1, 3, 5, 1]\<close>.
\<close>

definition demoFloating :: floating where
  "demoFloating =
     (case injectFloating demoDocument of
        Inr f \<Rightarrow> f
      | Inl e \<Rightarrow>
          \<lparr>baseDocument = demoDocument, extras = [], floatingIcon = [], toolbar = [],
           resolutionPicker = [], isToolbarVisible = False,
           isResolutionPickerVisible = False, selectionMode = False,
           captureListeners = 0, nextDialog = 0, windowSelected = None,
           selectedElementMessage = None\<rparr>)"

text \<open>
  Opening the toolbar, switching selection mode on and hovering \<open>#go\<close>; then clicking it
  and typing three blanks into the dialog.
\<close>

definition floatingSelecting :: floating where
  "floatingSelecting =
     floatingEvents demoPlatform [Press [2, 1], Press [0, 3, 1], Hover [0, 1]] demoFloating"

definition floatingDialog :: floating where
  "floatingDialog =
     floatingEvents demoPlatform [Press [0, 1], TypeMessage 0 (ascii ''   '')] floatingSelecting"

section \<open>The selectors, described level by level\<close>

text \<open>
  The segment for one level: the lower-case tag, followed by \<open>:nth-child(k)\<close> when the
  parent has more than one child with the element's tag, \<open>k\<close> being the element's
  position, counted from 1, among the parent's children with that tag.
\<close>

definition positionalSegment :: "element \<Rightarrow> element \<Rightarrow> nat \<Rightarrow> string" where
  "positionalSegment parent e i =
     toLowerCase (tagName e)
     @ (if length (siblings parent e) > 1
        then '':nth-child('' @ showNat (siblingIndex parent e i + 1) @ '')'' else [])"

text \<open>Where the walk up ends: an element with an id, the body, or the root.\<close>

definition anchor :: "element \<Rightarrow> string" where
  "anchor e =
     (if elemId e \<noteq> [] then ''#'' @ elemId e
      else if tagName e = ''BODY'' then ''body'' else toLowerCase (tagName e))"

text \<open>
  The walk from the element up to the nearest ancestor-or-self that has an id or is the
  body, given as the list of segments from that ancestor down to the element.
\<close>

fun walkUp :: "element \<Rightarrow> node \<Rightarrow> string list option" where
  "walkUp doc [] = (case nodeAt doc [] of None \<Rightarrow> None | Some e \<Rightarrow> Some [anchor e])"
| "walkUp doc (i # up) =
     (case nodeAt doc (i # up) of
        None \<Rightarrow> None
      | Some e \<Rightarrow>
          if elemId e \<noteq> [] \<or> tagName e = ''BODY'' then Some [anchor e]
          else (case nodeAt doc up of
                  None \<Rightarrow> None
                | Some parent \<Rightarrow>
                    map_option (\<lambda>ls. ls @ [positionalSegment parent e i]) (walkUp doc up)))"

text \<open>A body with a paragraph and two lists of one item each.\<close>

definition listDocument :: element where
  "listDocument = Element ''HTML'' [] [] []
     [Element ''HEAD'' [] [] [] [],
      Element ''BODY'' [] [] []
        [Element ''P'' [] [] [] [],
         Element ''UL'' [] [] [] [Element ''LI'' [] [] [] []],
         Element ''UL'' [] [] [] [Element ''LI'' [] [] [] []]]]"

section \<open>Clicks with a pointer, and what a positional selector addresses\<close>

text \<open>
  A click made with the pointer: the pointer enters the target, which fires
  \<^verbatim>\<open>mouseover\<close> on it, and then clicks.
\<close>

definition pointerClicks :: "node list \<Rightarrow> event list" where
  "pointerClicks ts = concat (map (\<lambda>t. [MouseOver t, Click t]) ts)"

text \<open>
  The targets the \<^verbatim>\<open>mouseover\<close> listener of the toggle-button script passes over:
  the overlay, the info panel and the dialog with what is inside them, the toggle
  button and the highlight box. The device selector is not among them.
\<close>

definition hoverExcluded :: "page \<Rightarrow> node \<Rightarrow> bool" where
  "hoverExcluded p target =
     (target = overlay p \<or> target = infoPanel p \<or> contains (infoPanel p) target
      \<or> target = dialogBox p \<or> contains (dialogBox p) target
      \<or> target = toggleButton p
      \<or> idOf (document p) target = ''mcp-inspector-highlight'')"

text \<open>
  What the browser's query finds for \<open>tag:nth-child(k)\<close> below a parent: in CSS,
  \<open>:nth-child(k)\<close> counts all children of the parent, so it is the parent's \<open>k\<close>-th
  child, when that child has the tag, and nothing otherwise.
\<close>

definition nthChildOf :: "element \<Rightarrow> node \<Rightarrow> string \<Rightarrow> nat \<Rightarrow> node option" where
  "nthChildOf doc parent tag k =
     (case nodeAt doc parent of
        None \<Rightarrow> None
      | Some p \<Rightarrow>
          if 1 \<le> k \<and> k \<le> length (children p)
             \<and> toLowerCase (tagName (children p ! (k - 1))) = tag
          then Some ((k - 1) # parent) else None)"

section \<open>Facts about the toggle-button script\<close>

lemma dropWhile_all: "(\<forall>x\<in>set (dropWhile P s). P x) \<longleftrightarrow> (\<forall>x\<in>set s. P x)"
  by (induction s) auto

lemma trim_empty_iff: "trim s = [] \<longleftrightarrow> (\<forall>c\<in>set s. isWhiteSpace c)"
  by (simp add: trim_def dropWhile_all)

lemma hideDialog_fields [simp]:
  "currentElement (hideDialog p) = currentElement p"
  "selectedElement (hideDialog p) = selectedElement p"
  "isSelectionLocked (hideDialog p) = isSelectionLocked p"
  "isSelectionModeActive (hideDialog p) = isSelectionModeActive p"
  "dialogDisplay (hideDialog p) = False"
  "windowSelectedElement (hideDialog p) = windowSelectedElement p"
  "document (hideDialog p) = document p"
  "overlay (hideDialog p) = overlay p"
  by (simp_all add: hideDialog_def Let_def)

lemma onApplySize_fields [simp]:
  "currentElement (onApplySize p) = currentElement p"
  "selectedElement (onApplySize p) = selectedElement p"
  "isSelectionLocked (onApplySize p) = isSelectionLocked p"
  "isSelectionModeActive (onApplySize p) = isSelectionModeActive p"
  "dialogDisplay (onApplySize p) = dialogDisplay p"
  "windowSelectedElement (onApplySize p) = windowSelectedElement p"
  by (simp_all add: onApplySize_def resizeWindow_def Let_def split: option.splits)

lemma onDeviceChange_fields [simp]:
  "currentElement (onDeviceChange i p) = currentElement p"
  "selectedElement (onDeviceChange i p) = selectedElement p"
  "isSelectionLocked (onDeviceChange i p) = isSelectionLocked p"
  "isSelectionModeActive (onDeviceChange i p) = isSelectionModeActive p"
  "dialogDisplay (onDeviceChange i p) = dialogDisplay p"
  "windowSelectedElement (onDeviceChange i p) = windowSelectedElement p"
  by (simp_all add: onDeviceChange_def resizeWindow_def Let_def split: option.splits prod.splits)

lemma toggleSelectionMode_fields [simp]:
  "selectedElement (toggleSelectionMode p) = None"
  "isSelectionLocked (toggleSelectionMode p) = False"
  "dialogDisplay (toggleSelectionMode p) = False"
  "isSelectionModeActive (toggleSelectionMode p) = (\<not> isSelectionModeActive p)"
  "windowSelectedElement (toggleSelectionMode p) = windowSelectedElement p"
  by (simp_all add: toggleSelectionMode_def Let_def hideHighlightBox_def split: option.splits)

lemma toggleSelectionMode_current:
  "currentElement p = None \<Longrightarrow> currentElement (toggleSelectionMode p) = None"
  by (simp add: toggleSelectionMode_def Let_def)

lemma onMouseOver_fields [simp]:
  "selectedElement (onMouseOver t p) = selectedElement p"
  "isSelectionLocked (onMouseOver t p) = isSelectionLocked p"
  "isSelectionModeActive (onMouseOver t p) = isSelectionModeActive p"
  "dialogDisplay (onMouseOver t p) = dialogDisplay p"
  "windowSelectedElement (onMouseOver t p) = windowSelectedElement p"
  by (simp_all add: onMouseOver_def updateInfoPanel_def updateHighlightBox_def
        createHighlightBox_def Let_def split: option.splits)

lemma submit_nothing_selected:
  "selectedElement p = None \<Longrightarrow> submitModificationRequest env p = p"
  by (simp add: submitModificationRequest_def)

lemma submit_whitespace:
  "\<forall>c\<in>set (textareaValue p). isWhiteSpace c \<Longrightarrow> submitModificationRequest env p = p"
  by (simp add: submitModificationRequest_def trim_empty_iff Let_def split: option.splits)

lemma submit_fields [simp]:
  "currentElement (submitModificationRequest env p) = currentElement p"
  "selectedElement (submitModificationRequest env p) = selectedElement p"
  "isSelectionLocked (submitModificationRequest env p) = isSelectionLocked p"
  "isSelectionModeActive (submitModificationRequest env p) = isSelectionModeActive p"
  by (simp_all add: submitModificationRequest_def Let_def split: option.splits)

lemma submit_dialog: "dialogDisplay (submitModificationRequest env p) \<Longrightarrow> dialogDisplay p"
  by (simp add: submitModificationRequest_def Let_def split: option.splits if_splits)

text \<open>
  While nothing is hovered or selected, a click changes neither that nor the record
  slot, whatever its target: only a hover gives the script a current element to lock.
\<close>

lemma onClick_nothingSelected:
  assumes "nothingSelected p"
  shows "nothingSelected (onClick env t p)
         \<and> windowSelectedElement (onClick env t p) = windowSelectedElement p"
proof -
  from assms have a: "currentElement p = None" "selectedElement p = None"
    "isSelectionLocked p = False" "dialogDisplay p = False"
    by (simp_all add: nothingSelected_def)
  show ?thesis
    unfolding onClick_def
    by (simp only: a if_False option.case simp_thms if_True)
       (simp add: nothingSelected_def a submit_nothing_selected toggleSelectionMode_current)
qed

lemma dispatchClick_nothingSelected:
  assumes "nothingSelected p"
  shows "nothingSelected (dispatchClick env t p)
         \<and> windowSelectedElement (dispatchClick env t p) = windowSelectedElement p"
proof -
  from assms have a: "currentElement p = None" "selectedElement p = None"
    "isSelectionLocked p = False" "dialogDisplay p = False"
    by (simp_all add: nothingSelected_def)
  show ?thesis
    using onClick_nothingSelected[OF assms, of env t]
    by (simp add: dispatchClick_def nothingSelected_def a submit_nothing_selected)
qed

lemma clicks_nothingSelected:
  "nothingSelected p \<Longrightarrow>
   nothingSelected (handleEvents env (map Click ts) p)
   \<and> windowSelectedElement (handleEvents env (map Click ts) p) = windowSelectedElement p"
proof (induction ts arbitrary: p)
  case Nil
  then show ?case by (simp add: handleEvents_def)
next
  case (Cons t ts)
  let ?q = "handleEvent env (Click t) p"
  have q: "nothingSelected ?q \<and> windowSelectedElement ?q = windowSelectedElement p"
    using dispatchClick_nothingSelected[OF Cons.prems, of env t] Cons.prems by simp
  have "handleEvents env (map Click (t # ts)) p = handleEvents env (map Click ts) ?q"
    by (simp add: handleEvents_def)
  with Cons.IH[of ?q] q show ?case by simp
qed

text \<open>The document listener opens the dialog only in its branch for a locked selection.\<close>

lemma onClick_opens:
  assumes "\<not> dialogDisplay p" "dialogDisplay (onClick env t p)"
  shows "\<exists>s. contains s t \<and> isSelectionModeActive p \<and> isSelectionLocked p
             \<and> selectedElement p = Some s \<and> onClick env t p = positionDialog s p"
proof (cases "isSelectionLocked p")
  case False
  then have a: "isSelectionLocked p = False" by simp
  have "\<not> dialogDisplay (onClick env t p)"
    unfolding onClick_def using assms(1) submit_dialog[of env p]
    by (simp only: a if_False simp_thms)
       (auto simp add: updateInfoPanel_def updateHighlightBox_def createHighlightBox_def
          Let_def split: option.splits)
  with assms(2) show ?thesis by simp
next
  case True
  then have a: "isSelectionLocked p = True" by simp
  show ?thesis
  proof (cases "selectedElement p")
    case None
    have "\<not> dialogDisplay (onClick env t p)"
      unfolding onClick_def using assms(1) submit_dialog[of env p]
      by (simp only: a None if_False if_True simp_thms option.case not_None_eq)
         (auto simp add: updateInfoPanel_def updateHighlightBox_def createHighlightBox_def
            Let_def split: option.splits)
    with assms(2) show ?thesis by simp
  next
    case (Some s)
    have "dialogDisplay (onClick env t p) \<longrightarrow>
            contains s t \<and> isSelectionModeActive p \<and> onClick env t p = positionDialog s p"
      unfolding onClick_def using assms(1) submit_dialog[of env p]
      by (simp only: a Some if_False if_True simp_thms option.case option.distinct)
         (auto simp add: updateInfoPanel_def updateHighlightBox_def createHighlightBox_def
            Let_def contains_def split: option.splits)
    with assms(2) a Some show ?thesis by simp
  qed
qed

lemma dispatchClick_opens:
  assumes "\<not> dialogDisplay p" "dialogDisplay (dispatchClick env t p)"
  shows "\<exists>s. contains s t \<and> isSelectionModeActive p \<and> isSelectionLocked p
             \<and> selectedElement p = Some s \<and> dispatchClick env t p = positionDialog s p"
proof -
  have "dispatchClick env t p = onClick env t p"
    using assms submit_dialog[of env p]
    by (auto simp add: dispatchClick_def split: if_splits)
  with assms onClick_opens[of p env t] show ?thesis by simp
qed

lemma event_opens_dialog:
  assumes "\<not> dialogDisplay p" "dialogDisplay (handleEvent env ev p)"
  shows "\<exists>t s. ev = Click t \<and> contains s t \<and> selectionState p = Locked s
               \<and> selectionState (handleEvent env ev p) = DialogOpen s"
proof (cases ev)
  case (Click t)
  with assms have inj: "injected p" by (auto split: if_splits)
  with assms Click have d: "dialogDisplay (dispatchClick env t p)" by simp
  from dispatchClick_opens[OF assms(1) d] obtain s where
    s: "contains s t" "isSelectionModeActive p" "isSelectionLocked p"
       "selectedElement p = Some s" "dispatchClick env t p = positionDialog s p"
    by blast
  have "selectionState p = Locked s"
    using s assms(1) by (simp add: selectionState_def)
  moreover have "selectionState (positionDialog s p) = DialogOpen s"
    using s by (simp add: selectionState_def positionDialog_def)
  ultimately show ?thesis using Click inj s by simp
qed (use assms in \<open>auto split: if_splits\<close>)

lemma selectionState_DialogOpen:
  "selectionState p = DialogOpen t \<longleftrightarrow>
     isSelectionModeActive p \<and> isSelectionLocked p \<and> selectedElement p = Some t
     \<and> dialogDisplay p"
  by (auto simp add: selectionState_def split: option.splits if_splits)

lemma getSelector_exists:
  "nodeAt doc n \<noteq> None \<Longrightarrow> getSelector doc n \<noteq> None"
  by (cases n) (auto simp add: getSelector_def split: option.splits if_splits)

lemma submit_request:
  assumes "getElementById (document p) ''mcp-modification-request'' \<noteq> None"
    and "selectedElement p = Some t" and "getSelector (document p) t = Some sel"
    and "trim (textareaValue p) \<noteq> []"
  shows "submitModificationRequest env p =
           p\<lparr>windowSelectedElement :=
               Some \<lparr>element = t, selector = sel, html = outerHTML env (document p) t,
                     css = getComputedStyle env (document p) t,
                     modificationRequest = trim (textareaValue p)\<rparr>,
             infoPanelHTML := RequestSubmitted (trim (textareaValue p)),
             dialogDisplay := False, textareaValue := []\<rparr>"
  using assms by (simp add: submitModificationRequest_def hideDialog_def Let_def)

lemma injectScript_idle: "injectScript p = Inr q \<Longrightarrow> idle q \<and> injected q"
  by (auto simp add: injectScript_def idle_def nothingSelected_def Let_def
        split: option.splits)

lemma toggle_off_idle: "isSelectionModeActive p \<Longrightarrow> idle (toggleSelectionMode p)"
  by (simp add: idle_def nothingSelected_def toggleSelectionMode_def Let_def
        hideHighlightBox_def split: option.splits)

lemma submit_slot:
  "windowSelectedElement (submitModificationRequest env p) = windowSelectedElement p
   \<or> (\<exists>s sel. selectedElement p = Some s \<and> getSelector (document p) s = Some sel
         \<and> windowSelectedElement (submitModificationRequest env p) =
             Some \<lparr>element = s, selector = sel, html = outerHTML env (document p) s,
                   css = getComputedStyle env (document p) s,
                   modificationRequest = trim (textareaValue p)\<rparr>)"
  by (auto simp add: submitModificationRequest_def Let_def hideDialog_def split: option.splits)

lemma update_fields [simp]:
  "windowSelectedElement (updateInfoPanel e b p) = windowSelectedElement p"
  "windowSelectedElement (updateHighlightBox e b p) = windowSelectedElement p"
  "windowSelectedElement (positionDialog e p) = windowSelectedElement p"
  by (simp_all add: updateInfoPanel_def updateHighlightBox_def createHighlightBox_def
        positionDialog_def Let_def split: option.splits)

lemma onClick_slot:
  "windowSelectedElement (onClick env t p) = windowSelectedElement p
   \<or> (idOf (document p) t = ''mcp-submit-button''
       \<and> onClick env t p = submitModificationRequest env p)"
  by (simp add: onClick_def Let_def split: option.splits)

lemma dispatchClick_slot:
  "windowSelectedElement (dispatchClick env t p) = windowSelectedElement p
   \<or> ((listens (submitButton p) t \<or> idOf (document p) t = ''mcp-submit-button'')
       \<and> dispatchClick env t p = submitModificationRequest env p)"
  using onClick_slot[of env t p] by (auto simp add: dispatchClick_def)

lemma event_slot:
  "windowSelectedElement (handleEvent env ev p) = windowSelectedElement p
   \<or> (\<exists>t. ev = Click t
            \<and> (listens (submitButton p) t \<or> idOf (document p) t = ''mcp-submit-button'')
            \<and> handleEvent env ev p = submitModificationRequest env p)"
proof (cases ev)
  case (Click t)
  then show ?thesis using dispatchClick_slot[of env t p] by auto
qed simp_all

text \<open>
  Pointer clicks on the targets the hover listener passes over leave everything
  unselected: the hover is ignored, and the click finds no current element to lock.
\<close>

lemma onMouseOver_excluded:
  "hoverExcluded p t \<Longrightarrow> onMouseOver t p = p"
  by (auto simp add: onMouseOver_def hoverExcluded_def)

lemma hideDialog_surfaces [simp]:
  "infoPanel (hideDialog p) = infoPanel p"
  "dialogBox (hideDialog p) = dialogBox p"
  "toggleButton (hideDialog p) = toggleButton p"
  by (simp_all add: hideDialog_def Let_def)

lemma toggle_surfaces [simp]:
  "overlay (toggleSelectionMode p) = overlay p"
  "infoPanel (toggleSelectionMode p) = infoPanel p"
  "dialogBox (toggleSelectionMode p) = dialogBox p"
  "toggleButton (toggleSelectionMode p) = toggleButton p"
  "document (toggleSelectionMode p) = document p"
  by (simp_all add: toggleSelectionMode_def Let_def hideHighlightBox_def split: option.splits)

lemma apply_surfaces [simp]:
  "overlay (onApplySize p) = overlay p"
  "infoPanel (onApplySize p) = infoPanel p"
  "dialogBox (onApplySize p) = dialogBox p"
  "toggleButton (onApplySize p) = toggleButton p"
  "document (onApplySize p) = document p"
  by (simp_all add: onApplySize_def resizeWindow_def Let_def split: option.splits)

lemma onClick_surfaces:
  assumes "nothingSelected p"
  shows "overlay (onClick env t p) = overlay p \<and> infoPanel (onClick env t p) = infoPanel p
         \<and> dialogBox (onClick env t p) = dialogBox p
         \<and> toggleButton (onClick env t p) = toggleButton p
         \<and> document (onClick env t p) = document p"
proof -
  from assms have a: "currentElement p = None" "selectedElement p = None"
    "isSelectionLocked p = False" "dialogDisplay p = False"
    by (simp_all add: nothingSelected_def)
  show ?thesis
    unfolding onClick_def
    by (simp only: a if_False option.case simp_thms if_True)
       (simp add: a submit_nothing_selected)
qed

lemma dispatchClick_surfaces:
  assumes "nothingSelected p"
  shows "hoverExcluded (dispatchClick env t p) = hoverExcluded p"
proof -
  from assms have a: "selectedElement p = None" by (simp add: nothingSelected_def)
  have "overlay (dispatchClick env t p) = overlay p \<and> infoPanel (dispatchClick env t p) = infoPanel p
         \<and> dialogBox (dispatchClick env t p) = dialogBox p
         \<and> toggleButton (dispatchClick env t p) = toggleButton p
         \<and> document (dispatchClick env t p) = document p"
    using onClick_surfaces[OF assms, of env t]
    by (simp add: dispatchClick_def submit_nothing_selected a)
  then show ?thesis by (simp add: hoverExcluded_def fun_eq_iff)
qed

lemma excluded_surfaces_stay_unselected:
  "nothingSelected p \<Longrightarrow> \<forall>t\<in>set ts. hoverExcluded p t \<Longrightarrow>
   nothingSelected (handleEvents env (pointerClicks ts) p)
   \<and> windowSelectedElement (handleEvents env (pointerClicks ts) p) = windowSelectedElement p"
proof (induction ts arbitrary: p)
  case Nil
  then show ?case by (simp add: handleEvents_def pointerClicks_def)
next
  case (Cons t ts)
  let ?q = "handleEvent env (Click t) p"
  from Cons.prems have ex: "hoverExcluded p t" by simp
  have hov: "handleEvent env (MouseOver t) p = p"
    using onMouseOver_excluded[OF ex] by simp
  have q: "nothingSelected ?q \<and> windowSelectedElement ?q = windowSelectedElement p"
    using dispatchClick_nothingSelected[OF Cons.prems(1), of env t] Cons.prems(1) by simp
  have "hoverExcluded ?q = hoverExcluded p"
    using dispatchClick_surfaces[OF Cons.prems(1), of env t] by simp
  with Cons.prems have rest: "\<forall>t\<in>set ts. hoverExcluded ?q t" by simp
  have "handleEvents env (pointerClicks (t # ts)) p = handleEvents env (pointerClicks ts) ?q"
    using hov by (simp add: handleEvents_def pointerClicks_def)
  with Cons.IH[of ?q] q rest show ?case by simp
qed

section \<open>Facts about the floating-icon script\<close>

lemma attach_slot [simp]:
  "windowSelected (attach i g f) = windowSelected f"
  "selectedElementMessage (attach i g f) = selectedElementMessage f"
  by (simp_all add: attach_def split: option.splits prod.splits)

lemma sendListener_slot [simp]: "windowSelected (sendListener n f) = windowSelected f"
  by (simp add: sendListener_def removeDialog_def Let_def split: option.splits)

lemma removeDialog_gone: "\<not> list_ex (isDialog n) (extras (removeDialog n f))"
  by (simp add: removeDialog_def list_ex_iff)

lemma send_whitespace:
  assumes "messageInput f = Some txt" "\<forall>c\<in>set txt. isWhiteSpace c"
  shows "sendListener n f = removeDialog n f"
  using assms by (simp add: sendListener_def trim_empty_iff Let_def)

lemma select_writes:
  assumes "captureListeners f > 0" "selectionMode f" "\<not> onSurface f t"
    "getUniqueSelector (currentDocument f) t = Some sel"
  shows "windowSelected (floatingEvent env (Press t) f) =
           Some \<lparr>pickedSelector = sel, pickedHtml = outerHTML env (currentDocument f) t,
                 pickedCss = getComputedStyle env (currentDocument f) t\<rparr>"
  using assms
  by (simp add: floatingClick_def captureClick_def selectTarget_def removeHighlight_def Let_def)

section \<open>The claims about the toggle-button script\<close>

text \<open>
  C1. The claim fails at the device picker. In the injected demo page, in \<open>Idle\<close>, three
  pointer clicks, all on engine surfaces, reach \<open>DialogOpen\<close>: one on the toggle button
  and two on the width input of the device picker. The hover listener does not pass
  over the device selector as it does over the other surfaces, so the pointer entering
  the input makes it the current element; the first click locks it, the second opens
  the dialog on it.
\<close>

theorem device_picker_clicks_open_dialog:
  "idle demoPage
   \<and> list_all (engineSurface demoPage) [[5, 1], [0, 2, 6, 1], [0, 2, 6, 1]]
   \<and> idOf (document demoPage) [6, 1] = ''mcp-device-selector''
   \<and> currentElement (handleEvents demoPlatform (pointerClicks [[5, 1], [0, 2, 6, 1]]) demoPage)
       = Some [0, 2, 6, 1]
   \<and> selectionState (handleEvents demoPlatform (pointerClicks [[5, 1], [0, 2, 6, 1]]) demoPage)
       = Locked [0, 2, 6, 1]
   \<and> selectionState
       (handleEvents demoPlatform (pointerClicks [[5, 1], [0, 2, 6, 1], [0, 2, 6, 1]]) demoPage)
       = DialogOpen [0, 2, 6, 1]"
  by code_simp

text \<open>
  C2. After \<^verbatim>\<open>inspect_element\<close> has run twice in the demo page, the document holds
  two nodes with the id \<open>mcp-device-selector\<close>, and three after a third run: that id is
  not in the list the script removes before it creates its nodes. Of the listed ids, the
  overlay, the info panel, the dialog and the toggle button are there once and the
  highlight box not at all (it is created on the first hover); the closure is \<open>Idle\<close>
  again.
\<close>

theorem second_injection_leaves_two_device_selectors:
  "(case page (runActions [demoLaunch, Inspect demoDriver, Inspect demoDriver] initialServer) of
      None \<Rightarrow> False
    | Some p \<Rightarrow>
        countId ''mcp-device-selector'' (document p) = 2
        \<and> map (\<lambda>i. countId i (document p)) existingElements = [1, 1, 1, 0, 1]
        \<and> idle p)
   \<and> (case page (runActions [demoLaunch, Inspect demoDriver, Inspect demoDriver,
                              Inspect demoDriver] initialServer) of
        None \<Rightarrow> False
      | Some p \<Rightarrow> countId ''mcp-device-selector'' (document p) = 3)"
  by code_simp

text \<open>
  C3, as the script has it. In \<open>DialogOpen t\<close>, with the textarea in the document and
  \<open>t\<close> an element of it, submitting a text whose trimmed form is not empty writes the
  record (the element, its selector, markup and computed style, the trimmed text) into
  \<^verbatim>\<open>window.selectedElement\<close>, hides the dialog and empties the textarea. The locked
  flag and the selected element are not touched: the machine is in \<open>Locked t\<close>.
\<close>

theorem submit_commits_record_and_stays_locked:
  assumes "selectionState p = DialogOpen t"
    and "getElementById (document p) ''mcp-modification-request'' \<noteq> None"
    and "nodeAt (document p) t \<noteq> None"
    and "trim (textareaValue p) \<noteq> []"
  shows "\<exists>sel. getSelector (document p) t = Some sel
           \<and> windowSelectedElement (submitModificationRequest env p) =
               Some \<lparr>element = t, selector = sel, html = outerHTML env (document p) t,
                     css = getComputedStyle env (document p) t,
                     modificationRequest = trim (textareaValue p)\<rparr>
           \<and> \<not> dialogDisplay (submitModificationRequest env p)
           \<and> textareaValue (submitModificationRequest env p) = []
           \<and> isSelectionLocked (submitModificationRequest env p)
           \<and> selectedElement (submitModificationRequest env p) = Some t
           \<and> selectionState (submitModificationRequest env p) = Locked t"
proof -
  from assms(1) have st: "isSelectionModeActive p" "isSelectionLocked p"
    "selectedElement p = Some t" "dialogDisplay p"
    by (simp_all add: selectionState_DialogOpen)
  from getSelector_exists[OF assms(3)] obtain sel where
    sel: "getSelector (document p) t = Some sel" by blast
  note eq = submit_request[OF assms(2) st(3) sel assms(4), of env]
  show ?thesis
    using st sel by (simp add: eq selectionState_def)
qed

theorem submit_commits_record_and_stays_locked_witness:
  "selectionState demoDialogOpen = DialogOpen [0, 1]
   \<and> trim (textareaValue demoDialogOpen) = ascii ''make this red''
   \<and> windowSelectedElement (submitModificationRequest demoPlatform demoDialogOpen) =
       Some \<lparr>element = [0, 1], selector = ''#go'', html = ''<button id=go>Go</button>'',
             css = [(''display'', ''inline-block'')],
             modificationRequest = ascii ''make this red''\<rparr>
   \<and> selectionState (submitModificationRequest demoPlatform demoDialogOpen) = Locked [0, 1]"
proof -
  have a: "selectionState demoDialogOpen = DialogOpen [0, 1]" by code_simp
  have b: "getElementById (document demoDialogOpen) ''mcp-modification-request'' \<noteq> None"
    by code_simp
  have c: "nodeAt (document demoDialogOpen) [0, 1] \<noteq> None" by code_simp
  have d: "trim (textareaValue demoDialogOpen) = ascii ''make this red''" by code_simp
  have e: "ascii ''make this red'' \<noteq> []" by code_simp
  have f: "getSelector (document demoDialogOpen) [0, 1] = Some ''#go''" by code_simp
  have g: "outerHTML demoPlatform (document demoDialogOpen) [0, 1] = ''<button id=go>Go</button>''"
    "getComputedStyle demoPlatform (document demoDialogOpen) [0, 1]
       = [(''display'', ''inline-block'')]"
    by (simp_all add: demoPlatform_def)
  from d e have d': "trim (textareaValue demoDialogOpen) \<noteq> []" by simp
  from submit_commits_record_and_stays_locked[OF a b c d', of demoPlatform] a d f g
  show ?thesis by simp
qed

text \<open>
  The claim as the specification words it fails: after the click on the submit button
  the record is written, but the selection is still locked on \<open>#go\<close> and the machine is
  not in \<open>Idle\<close>.
\<close>

theorem submit_returns_to_idle_counterexample:
  "selectionState demoDialogOpen = DialogOpen [0, 1]
   \<and> trim (textareaValue demoDialogOpen) \<noteq> []
   \<and> windowSelectedElement (handleEvent demoPlatform (Click [1, 2, 4, 1]) demoDialogOpen) \<noteq> None
   \<and> isSelectionLocked (handleEvent demoPlatform (Click [1, 2, 4, 1]) demoDialogOpen)
   \<and> selectedElement (handleEvent demoPlatform (Click [1, 2, 4, 1]) demoDialogOpen) = Some [0, 1]
   \<and> selectionState (handleEvent demoPlatform (Click [1, 2, 4, 1]) demoDialogOpen) \<noteq> Idle"
  by code_simp

text \<open>
  C8, as the script has it. The highlight box is created with the largest z-index,
  2147483647, so it stacks above every surface of the script: overlay (9999) below info
  panel (10000) below dialog (10002) below toggle button and device selector (10003)
  below the highlight box. In the floating-icon script the highlight box (2147483646) is
  just below the floating icon and the dialog (2147483647), and above the toolbar (10002)
  and the resolution picker (10004).
\<close>

theorem highlight_stacks_above_surfaces:
  "zIndex highlightElement = Some 2147483647
   \<and> below overlayElement infoPanelElement
   \<and> below infoPanelElement dialogBoxElement
   \<and> below dialogBoxElement toggleButtonElement
   \<and> zIndex deviceSelectorElement = zIndex toggleButtonElement
   \<and> below toggleButtonElement highlightElement
   \<and> below toolbarElement resolutionPickerElement
   \<and> below resolutionPickerElement (extraElement HighlightBox)
   \<and> below (extraElement HighlightBox) floatingIconElement
   \<and> below (extraElement HighlightBox) (extraElement (DialogBox 0 [] [] []))"
  by code_simp

text \<open>The order the specification gives, highlight below panel, dialog and toggle, fails.\<close>

theorem highlight_below_surfaces_counterexample:
  "\<not> (below highlightElement infoPanelElement \<and> below highlightElement dialogBoxElement
      \<and> below highlightElement toggleButtonElement)"
  by code_simp

section \<open>Facts about the server\<close>

lemma errorResult_isError [simp]: "isError (errorResult m)"
  by (simp add: errorResult_def)

lemma errorResult_eq [simp]: "errorResult m = errorResult m' \<longleftrightarrow> m = m'"
  by (simp add: errorResult_def)

lemma perform_keeps_no_info:
  assumes "elementInfo st = None" "\<not> findsRecord a st"
  shows "elementInfo (snd (perform a st)) = None"
proof (cases a)
  case (Launch env args)
  then show ?thesis using assms
    by (auto simp add: launchBrowser_def closeBrowser_def Let_def split: option.splits sum.splits)
next
  case (Inspect env)
  then show ?thesis using assms
    by (auto simp add: inspectElement_def split: option.splits sum.splits prod.splits)
next
  case (GetInfo env)
  then show ?thesis using assms
    by (auto simp add: getElementInfo_def recordCommitted_def Let_def split: option.splits sum.splits)
next
  case (Modify env args)
  then show ?thesis using assms
    by (auto simp add: modifyElement_def split: option.splits)
next
  case (Close env)
  then show ?thesis using assms
    by (auto simp add: closeBrowserTool_def closeBrowser_def split: option.splits sum.splits)
next
  case (InPage env ev)
  then show ?thesis using assms by (auto split: option.splits)
qed

lemma run_keeps_no_info:
  "elementInfo st = None \<Longrightarrow> neverFindsRecord acts st \<Longrightarrow> elementInfo (runActions acts st) = None"
proof (induction acts arbitrary: st)
  case Nil
  then show ?case by (simp add: runActions_def)
next
  case (Cons a acts)
  from Cons.prems have "elementInfo (snd (perform a st)) = None"
    by (simp add: perform_keeps_no_info)
  with Cons.IH[of "snd (perform a st)"] Cons.prems show ?case
    by (simp add: runActions_def)
qed

lemma uncommitted_neverFindsRecord:
  "uncommitted acts st \<Longrightarrow> neverFindsRecord acts st"
proof (induction acts arbitrary: st)
  case Nil
  then show ?case by simp
next
  case (Cons a acts)
  then show ?case by (cases a) auto
qed

lemma modify_no_info:
  "elementInfo st = None \<Longrightarrow>
   modifyElement env args st =
     (if browser st \<noteq> None \<and> page st \<noteq> None then noElementSelected else notLaunched, st)"
  by (auto simp add: modifyElement_def split: option.splits)

lemma perform_invariant:
  assumes "sessionInvariant st"
  shows "sessionInvariant (snd (perform a st))"
proof (cases a)
  case (Launch env args)
  then show ?thesis using assms
    by (auto simp add: sessionInvariant_def launchBrowser_def closeBrowser_def Let_def
          split: option.splits sum.splits)
next
  case (Inspect env)
  then show ?thesis using assms
    by (auto simp add: sessionInvariant_def inspectElement_def
          split: option.splits sum.splits prod.splits)
next
  case (GetInfo env)
  then show ?thesis using assms
    by (auto simp add: sessionInvariant_def getElementInfo_def Let_def
          split: option.splits sum.splits)
next
  case (Modify env args)
  then show ?thesis using assms
    by (auto simp add: sessionInvariant_def modifyElement_def Let_def
          split: option.splits sum.splits)
next
  case (Close env)
  then show ?thesis using assms
    by (auto simp add: sessionInvariant_def closeBrowserTool_def closeBrowser_def
          split: option.splits sum.splits)
next
  case (InPage env ev)
  then show ?thesis using assms by (auto simp add: sessionInvariant_def split: option.splits)
qed

lemma run_invariant:
  "sessionInvariant st \<Longrightarrow> sessionInvariant (runActions acts st)"
proof (induction acts arbitrary: st)
  case Nil
  then show ?case by (simp add: runActions_def)
next
  case (Cons a acts)
  from Cons.IH[OF perform_invariant[OF Cons.prems, of a]] show ?case
    by (simp add: runActions_def)
qed

lemma runActions_append:
  "runActions (xs @ ys) st = runActions ys (runActions xs st)"
  by (simp add: runActions_def)

lemma close_clears_info:
  assumes "sessionInvariant st" "closeFails env = None"
  shows "elementInfo (snd (perform (Close env) st)) = None"
  using assms
  by (auto simp add: sessionInvariant_def closeBrowserTool_def closeBrowser_def split: option.splits)

lemma launch_clears_info:
  assumes "sessionInvariant st" "closeFails env = None"
  shows "elementInfo (snd (perform (Launch env args) st)) = None"
  using assms
  by (auto simp add: sessionInvariant_def launchBrowser_def closeBrowser_def Let_def
        split: option.splits sum.splits)

lemma modify_ignores_slot:
  "modifyElement env args (setSlot r st) = map_prod id (setSlot r) (modifyElement env args st)"
  by (auto simp add: modifyElement_def setSlot_def Let_def split: option.splits sum.splits)

lemma getElementInfo_caches:
  assumes "browser st = Some b" "page st = Some pg" "evaluateFails genv = None"
    "windowSelectedElement pg = Some r"
  shows "elementInfo (snd (getElementInfo genv st)) =
           Some \<lparr>infoSelector = selector r, infoHtml = html r,
                 infoCss = stringify genv (css r)\<rparr>"
  using assms by (simp add: getElementInfo_def Let_def split: sum.splits)

text \<open>
  The whole path on the demo page: after the submit and a \<^verbatim>\<open>get_element_info\<close>,
  \<^verbatim>\<open>modify_element\<close> with \<open>color: red\<close> sets the inline style of \<open>#go\<close>.
\<close>

lemma demo_session_modifies_go:
  "(case modifyElement demoDriver demoModify
           (runActions ([demoLaunch] @ demoDraft @ [demoSubmit, GetInfo demoDriver])
              initialServer) of
      (res, st) \<Rightarrow>
        \<not> isError res
        \<and> map_option (\<lambda>pg. map_option style (nodeAt (document pg) [0, 1])) (page st)
            = Some (Some [(''color'', ''red'')]))"
  by code_simp

section \<open>The claims about the server\<close>

text \<open>
  C7, as the server has it. After any run from the start of the server in which no
  selection record is ever committed, \<^verbatim>\<open>modify_element\<close> returns an error result
  and changes nothing, the document included: the \<open>No element selected\<close> error when a
  session is open, the \<open>Browser is not launched\<close> error when none is.
\<close>

theorem modify_before_any_record:
  assumes "uncommitted acts initialServer"
  shows "modifyElement env args (runActions acts initialServer) =
           (if browser (runActions acts initialServer) \<noteq> None
               \<and> page (runActions acts initialServer) \<noteq> None
            then noElementSelected else notLaunched,
            runActions acts initialServer)
         \<and> isError (fst (modifyElement env args (runActions acts initialServer)))"
proof -
  have "elementInfo initialServer = None" by (simp add: initialServer_def)
  with assms have "elementInfo (runActions acts initialServer) = None"
    by (simp add: run_keeps_no_info uncommitted_neverFindsRecord)
  then show ?thesis
    by (simp add: modify_no_info noElementSelected_def notLaunched_def)
qed

theorem modify_before_any_record_witness:
  "uncommitted (demoLaunch # demoDraft) initialServer
   \<and> modifyElement demoDriver demoModify
       (runActions (demoLaunch # demoDraft) initialServer)
     = (noElementSelected, runActions (demoLaunch # demoDraft) initialServer)"
proof -
  have u: "uncommitted (demoLaunch # demoDraft) initialServer" by code_simp
  have b: "browser (runActions (demoLaunch # demoDraft) initialServer) \<noteq> None
           \<and> page (runActions (demoLaunch # demoDraft) initialServer) \<noteq> None" by code_simp
  from modify_before_any_record[OF u, of demoDriver
         demoModify] u b
  show ?thesis by simp
qed

text \<open>
  On the server as it starts, no record has been committed and the error is not the
  \<open>No element selected\<close> one.
\<close>

theorem modify_on_fresh_server_counterexample:
  "\<not> recordCommitted initialServer
   \<and> fst (modifyElement demoDriver demoModify
            initialServer) = notLaunched
   \<and> notLaunched \<noteq> noElementSelected"
  by (simp add: modifyElement_def initialServer_def recordCommitted_def notLaunched_def noElementSelected_def)

text \<open>
  C9. With a session open and no URL given (absent or empty), \<^verbatim>\<open>launch_browser\<close>
  first closes the session: when the close goes through, the result is the
  \<open>URL is required\<close> error and browser, page and element info are all null; and
  whenever that error is the result, the state is the reset one, not the state before.
\<close>

theorem launch_without_url_closes_session:
  assumes "browser st = Some b" and "args = Some a" and "url a = None \<or> url a = Some []"
  shows "(closeFails env = None \<longrightarrow>
            launchBrowser env args st = (errorResult ''URL is required'', initialServer))
         \<and> (fst (launchBrowser env args st) = errorResult ''URL is required'' \<longrightarrow>
              snd (launchBrowser env args st) = initialServer
              \<and> snd (launchBrowser env args st) \<noteq> st)"
proof -
  have ne: "initialServer \<noteq> st"
    using assms(1) by (auto simp add: initialServer_def)
  show ?thesis
  proof (cases "closeFails env")
    case None
    with assms have "launchBrowser env args st = (errorResult ''URL is required'', initialServer)"
      by (auto simp add: launchBrowser_def closeBrowser_def initialServer_def)
    with ne None show ?thesis by simp
  next
    case (Some err)
    with assms have "fst (launchBrowser env args st) = errorResult (''Error launching browser: '' @ err)"
      by (simp add: launchBrowser_def closeBrowser_def)
    with Some show ?thesis by simp
  qed
qed

theorem launch_without_url_closes_session_witness:
  "launchBrowser demoDriver (Some \<lparr>url = None\<rparr>)
     \<lparr>browser = Some Browser, page = Some demoPage,
      elementInfo = Some \<lparr>infoSelector = ''#go'', infoHtml = ''<button>'', infoCss = ''{}''\<rparr>\<rparr>
   = (errorResult ''URL is required'', \<lparr>browser = None, page = None, elementInfo = None\<rparr>)"
proof -
  have c: "closeFails demoDriver = None" by (simp add: demoDriver_def)
  have b: "browser \<lparr>browser = Some Browser, page = Some demoPage,
      elementInfo = Some \<lparr>infoSelector = ''#go'', infoHtml = ''<button>'', infoCss = ''{}''\<rparr>\<rparr> = Some Browser"
    by simp
  have u: "url \<lparr>url = None\<rparr> = None \<or> url \<lparr>url = None\<rparr> = Some []" by simp
  from launch_without_url_closes_session[OF b refl u, of demoDriver] c
  show ?thesis by (simp add: initialServer_def)
qed

text \<open>
  C10, as the server has it. \<^verbatim>\<open>modify_element\<close> never reads the page's record
  slot, only the cached \<^verbatim>\<open>elementInfo\<close>, which a \<^verbatim>\<open>get_element_info\<close> call
  writes from the record it finds in the page. Take a run from the start of the server,
  or up to a \<^verbatim>\<open>close_browser\<close> or \<^verbatim>\<open>launch_browser\<close> whose close went through,
  followed by steps in which no \<^verbatim>\<open>get_element_info\<close> call finds a record: then
  \<^verbatim>\<open>modify_element\<close> returns the \<open>No element selected\<close> error when a session is
  open (\<open>Browser is not launched\<close> when none is) and changes nothing, whether or not a
  record has been committed in the page.
\<close>

theorem modify_uses_cached_selector_only:
  assumes "pre = [] \<or> (\<exists>cenv x. closeFails cenv = None
                          \<and> (last pre = Close cenv \<or> last pre = Launch cenv x))"
    and "neverFindsRecord acts (runActions pre initialServer)"
  shows "modifyElement env args (runActions (pre @ acts) initialServer) =
           (if browser (runActions (pre @ acts) initialServer) \<noteq> None
               \<and> page (runActions (pre @ acts) initialServer) \<noteq> None
            then noElementSelected else notLaunched,
            runActions (pre @ acts) initialServer)
         \<and> (\<forall>st r. modifyElement env args (setSlot r st)
                     = map_prod id (setSlot r) (modifyElement env args st))
         \<and> (\<forall>st b pg r genv.
               browser st = Some b \<and> page st = Some pg \<and> evaluateFails genv = None
               \<and> windowSelectedElement pg = Some r \<longrightarrow>
               elementInfo (snd (getElementInfo genv st)) =
                 Some \<lparr>infoSelector = selector r, infoHtml = html r,
                       infoCss = stringify genv (css r)\<rparr>)"
proof -
  have inv0: "sessionInvariant initialServer"
    by (simp add: sessionInvariant_def initialServer_def)
  have "elementInfo (runActions pre initialServer) = None"
  proof (cases "pre = []")
    case True
    then show ?thesis by (simp add: runActions_def initialServer_def)
  next
    case False
    then obtain pre' c where pre: "pre = pre' @ [c]"
      by (metis append_butlast_last_id)
    with assms(1) obtain cenv x where
      c: "closeFails cenv = None" "c = Close cenv \<or> c = Launch cenv x"
      by auto
    have inv: "sessionInvariant (runActions pre' initialServer)"
      by (rule run_invariant[OF inv0])
    have "runActions pre initialServer = snd (perform c (runActions pre' initialServer))"
      by (simp add: pre runActions_def)
    with c close_clears_info[OF inv c(1)] launch_clears_info[OF inv c(1), of x]
    show ?thesis by auto
  qed
  with assms(2) have "elementInfo (runActions (pre @ acts) initialServer) = None"
    by (simp add: runActions_append run_keeps_no_info)
  then show ?thesis
    using getElementInfo_caches by (simp add: modify_no_info modify_ignores_slot)
qed

theorem modify_uses_cached_selector_only_witness:
  "neverFindsRecord (demoDraft @ [demoSubmit]) (runActions [demoLaunch] initialServer)
   \<and> recordCommitted (runActions ([demoLaunch] @ (demoDraft @ [demoSubmit])) initialServer)
   \<and> modifyElement demoDriver demoModify
       (runActions ([demoLaunch] @ (demoDraft @ [demoSubmit])) initialServer)
     = (noElementSelected, runActions ([demoLaunch] @ (demoDraft @ [demoSubmit])) initialServer)"
proof -
  have l: "[demoLaunch] = [] \<or> (\<exists>cenv x. closeFails cenv = None
             \<and> (last [demoLaunch] = Close cenv \<or> last [demoLaunch] = Launch cenv x))"
    by (auto simp add: demoLaunch_def demoDriver_def)
  have n: "neverFindsRecord (demoDraft @ [demoSubmit]) (runActions [demoLaunch] initialServer)"
    by code_simp
  have r: "recordCommitted (runActions ([demoLaunch] @ (demoDraft @ [demoSubmit])) initialServer)"
    by code_simp
  have b: "browser (runActions ([demoLaunch] @ (demoDraft @ [demoSubmit])) initialServer) \<noteq> None
           \<and> page (runActions ([demoLaunch] @ (demoDraft @ [demoSubmit])) initialServer) \<noteq> None"
    by code_simp
  from modify_uses_cached_selector_only[OF l n, of demoDriver
         demoModify] n r b
  show ?thesis by simp
qed

text \<open>
  The claim as worded fails twice. On the server as it starts the error is the
  \<open>Browser is not launched\<close> one. And a \<^verbatim>\<open>get_element_info\<close> call whose screenshot
  is rejected returns an error, yet has cached the selector before: the next
  \<^verbatim>\<open>modify_element\<close> goes through.
\<close>

theorem failed_get_element_info_caches_counterexample:
  "fst (modifyElement demoDriver demoModify
          initialServer) = notLaunched
   \<and> notLaunched \<noteq> noElementSelected
   \<and> map_option isError
       (fst (perform (GetInfo (demoDriver\<lparr>screenshot := Inl ''Target closed''\<rparr>))
               (runActions ([demoLaunch] @ (demoDraft @ [demoSubmit])) initialServer))) = Some True
   \<and> \<not> isError
         (fst (modifyElement demoDriver
                 demoModify
                 (runActions ([demoLaunch] @ (demoDraft @ [demoSubmit])
                              @ [GetInfo (demoDriver\<lparr>screenshot := Inl ''Target closed''\<rparr>)])
                    initialServer)))"
  by code_simp

section \<open>The claims about both scripts\<close>

text \<open>
  C4, as the two scripts have it. With a draft that is empty or white space only,
  nothing is written. In the toggle-button script \<^verbatim>\<open>submitModificationRequest\<close>
  changes nothing at all, so the dialog stays open. In the floating-icon script the send
  listener writes neither \<^verbatim>\<open>window.selectedElement\<close> nor
  \<^verbatim>\<open>window.selectedElementMessage\<close>, but it removes its dialog box all the same.
\<close>

theorem blank_submit_writes_nothing:
  assumes "\<forall>c\<in>set txt. isWhiteSpace c"
  shows "(textareaValue p = txt \<longrightarrow> submitModificationRequest env p = p)
         \<and> (messageInput f = Some txt \<longrightarrow>
              sendListener n f = removeDialog n f
              \<and> windowSelected (sendListener n f) = windowSelected f
              \<and> selectedElementMessage (sendListener n f) = selectedElementMessage f
              \<and> \<not> list_ex (isDialog n) (extras (sendListener n f)))"
  using assms send_whitespace[of f "txt" n] removeDialog_gone[of n f]
  by (auto simp add: submit_whitespace removeDialog_def)

theorem blank_submit_writes_nothing_witness:
  "list_all isWhiteSpace (ascii ''   '')
   \<and> selectionState (handleEvent demoPlatform (TypeRequest (ascii ''   '')) demoDialogOpen)
       = DialogOpen [0, 1]
   \<and> handleEvent demoPlatform (Click [1, 2, 4, 1])
         (handleEvent demoPlatform (TypeRequest (ascii ''   '')) demoDialogOpen)
       = handleEvent demoPlatform (TypeRequest (ascii ''   '')) demoDialogOpen
   \<and> messageInput floatingDialog = Some (ascii ''   '')
   \<and> sendListener 0 floatingDialog = removeDialog 0 floatingDialog"
proof -
  let ?p = "handleEvent demoPlatform (TypeRequest (ascii ''   '')) demoDialogOpen"
  have l: "list_all isWhiteSpace (ascii ''   '')" by code_simp
  then have w: "\<forall>c\<in>set (ascii ''   ''). isWhiteSpace c" by (simp only: list_all_iff)
  have s: "selectionState ?p = DialogOpen [0, 1]" by code_simp
  have t: "textareaValue ?p = ascii ''   ''" by code_simp
  have c: "handleEvent demoPlatform (Click [1, 2, 4, 1]) ?p
             = submitModificationRequest demoPlatform ?p"
    by code_simp
  have m: "messageInput floatingDialog = Some (ascii ''   '')" by code_simp
  from blank_submit_writes_nothing[OF w, of ?p demoPlatform floatingDialog 0] s t c m l
  show ?thesis by simp
qed

text \<open>
  In the floating-icon script, sending three blanks closes the dialog: the claim that
  the dialog stays open fails there.
\<close>

theorem blank_send_closes_dialog_counterexample:
  "messageInput floatingDialog = Some (ascii ''   '')
   \<and> list_ex (isDialog 0) (extras floatingDialog)
   \<and> \<not> list_ex (isDialog 0)
         (extras (floatingEvent demoPlatform (Press [1, 3, 5, 1]) floatingDialog))
   \<and> selectedElementMessage (floatingEvent demoPlatform (Press [1, 3, 5, 1]) floatingDialog)
       = None"
  by code_simp

text \<open>
  C5, as the two scripts have it. In the toggle-button script an event changes
  \<^verbatim>\<open>window.selectedElement\<close> only when it is a click that runs the submit function,
  and the new content is built from the selected element and the draft alone, nothing
  of the previous record is kept. In the floating-icon script the slot is written by
  the click that selects an element, before any dialog exists, and the send listener
  never writes it.
\<close>

theorem record_slot_writers:
  "(windowSelectedElement (handleEvent env ev p) = windowSelectedElement p
    \<or> (\<exists>t s sel. ev = Click t
          \<and> (listens (submitButton p) t \<or> idOf (document p) t = ''mcp-submit-button'')
          \<and> selectedElement p = Some s \<and> getSelector (document p) s = Some sel
          \<and> windowSelectedElement (handleEvent env ev p) =
              Some \<lparr>element = s, selector = sel, html = outerHTML env (document p) s,
                    css = getComputedStyle env (document p) s,
                    modificationRequest = trim (textareaValue p)\<rparr>))
   \<and> (0 < captureListeners f \<and> selectionMode f \<and> \<not> onSurface f target
        \<and> getUniqueSelector (currentDocument f) target = Some usel \<longrightarrow>
       windowSelected (floatingEvent env (Press target) f) =
         Some \<lparr>pickedSelector = usel, pickedHtml = outerHTML env (currentDocument f) target,
               pickedCss = getComputedStyle env (currentDocument f) target\<rparr>)
   \<and> windowSelected (sendListener n f) = windowSelected f"
proof -
  have a: "windowSelectedElement (handleEvent env ev p) = windowSelectedElement p
    \<or> (\<exists>t s sel. ev = Click t
          \<and> (listens (submitButton p) t \<or> idOf (document p) t = ''mcp-submit-button'')
          \<and> selectedElement p = Some s \<and> getSelector (document p) s = Some sel
          \<and> windowSelectedElement (handleEvent env ev p) =
              Some \<lparr>element = s, selector = sel, html = outerHTML env (document p) s,
                    css = getComputedStyle env (document p) s,
                    modificationRequest = trim (textareaValue p)\<rparr>)"
    using event_slot[of env ev p] submit_slot[of env p] by auto
  show ?thesis
    using a select_writes[of f target usel env] by simp
qed

theorem record_slot_writers_witness:
  "windowSelectedElement (handleEvent demoPlatform (Click [1, 2, 4, 1]) demoDialogOpen) =
     Some \<lparr>element = [0, 1], selector = ''#go'', html = ''<button id=go>Go</button>'',
           css = [(''display'', ''inline-block'')],
           modificationRequest = ascii ''make this red''\<rparr>
   \<and> windowSelected (floatingEvent demoPlatform (Press [0, 1]) floatingSelecting) =
       Some \<lparr>pickedSelector = ''#go'', pickedHtml = ''<button id=go>Go</button>'',
             pickedCss = [(''display'', ''inline-block'')]\<rparr>"
proof -
  have c: "0 < captureListeners floatingSelecting \<and> selectionMode floatingSelecting
           \<and> \<not> onSurface floatingSelecting [0, 1]
           \<and> getUniqueSelector (currentDocument floatingSelecting) [0, 1] = Some ''#go''"
    by code_simp
  have g: "outerHTML demoPlatform (currentDocument floatingSelecting) [0, 1]
             = ''<button id=go>Go</button>''"
    "getComputedStyle demoPlatform (currentDocument floatingSelecting) [0, 1]
       = [(''display'', ''inline-block'')]"
    by (simp_all add: demoPlatform_def)
  have a: "windowSelectedElement (handleEvent demoPlatform (Click [1, 2, 4, 1]) demoDialogOpen) =
     Some \<lparr>element = [0, 1], selector = ''#go'', html = ''<button id=go>Go</button>'',
           css = [(''display'', ''inline-block'')],
           modificationRequest = ascii ''make this red''\<rparr>"
    by code_simp
  from record_slot_writers[of demoPlatform "Click [1, 2, 4, 1]" demoDialogOpen
         floatingSelecting "[0, 1]" "''#go''" 0] c g a
  show ?thesis by simp
qed

text \<open>
  In the floating-icon script the first selecting click writes the slot: there is no
  dialog yet, and no message.
\<close>

theorem selecting_click_writes_slot_counterexample:
  "windowSelected floatingSelecting = None
   \<and> extras floatingSelecting = [HighlightBox]
   \<and> windowSelected (floatingEvent demoPlatform (Press [0, 1]) floatingSelecting) \<noteq> None
   \<and> selectedElementMessage (floatingEvent demoPlatform (Press [0, 1]) floatingSelecting) = None"
  by code_simp


section \<open>Facts about the selectors\<close>

lemma join_snoc: "ls \<noteq> [] \<Longrightarrow> join sep (ls @ [x]) = join sep ls @ sep @ x"
  by (induction sep ls rule: join.induct) auto

lemma walkUp_nonempty: "walkUp doc n = Some ls \<Longrightarrow> ls \<noteq> []"
  by (cases n) (auto split: option.splits if_splits)

lemma child_in_siblings:
  assumes "nodeAt doc (i # up) = Some e" "nodeAt doc up = Some parent"
  shows "length (siblings parent e) \<ge> 1"
proof -
  from assms have "i < length (children parent)" "e = children parent ! i"
    by (auto split: if_splits)
  then have "e \<in> set (siblings parent e)"
    by (simp add: siblings_def)
  then show ?thesis by (cases "siblings parent e") auto
qed

lemma getUniqueSelector_walkUp:
  "getUniqueSelector doc n = map_option (join '' > '') (walkUp doc n)"
proof (induction n)
  case Nil
  then show ?case by (simp add: anchor_def split: option.splits)
next
  case (Cons i up)
  show ?case
  proof (cases "nodeAt doc (i # up)")
    case None
    then show ?thesis by simp
  next
    case (Some e)
    show ?thesis
    proof (cases "elemId e \<noteq> [] \<or> tagName e = ''BODY''")
      case True
      with Some show ?thesis by (auto simp add: anchor_def)
    next
      case False
      show ?thesis
      proof (cases "nodeAt doc up")
        case None
        with Some False show ?thesis by simp
      next
        case par: (Some parent)
        show ?thesis
        proof (cases "walkUp doc up")
          case None
          with Some False par Cons.IH show ?thesis by simp
        next
          case ls: (Some ls)
          from walkUp_nonempty[OF ls] have ne: "ls \<noteq> []" .
          from child_in_siblings[OF Some par] have "length (siblings parent e) \<ge> 1" .
          then have one: "length (siblings parent e) = 1 \<longleftrightarrow> \<not> length (siblings parent e) > 1"
            by auto
          from Cons.IH ls have up: "getUniqueSelector doc up = Some (join '' > '' ls)"
            by simp
          show ?thesis
            using Some False par ls up one
            by (simp add: join_snoc[OF ne] positionalSegment_def)
        qed
      qed
    qed
  qed
qed

lemma getSelector_positional:
  assumes "nodeAt doc (i # up) = Some e" "nodeAt doc up = Some parent"
    "elemId e = []" "classList e = []"
  shows "getSelector doc (i # up) = Some (positionalSegment parent e i)"
  using assms by (simp add: getSelector_def positionalSegment_def)

lemma siblingIndex_indexOf:
  assumes "i < length (children parent)"
  shows "siblingIndex parent (children parent ! i) i < length (siblings parent (children parent ! i))
         \<and> siblings parent (children parent ! i) ! siblingIndex parent (children parent ! i) i
             = children parent ! i"
proof -
  let ?e = "children parent ! i"
  let ?P = "\<lambda>child. tagName child = tagName ?e"
  have split: "children parent = take i (children parent) @ ?e # drop (Suc i) (children parent)"
    using assms by (simp add: id_take_nth_drop)
  have "siblings parent ?e = filter ?P (take i (children parent)) @ ?e # filter ?P (drop (Suc i) (children parent))"
    unfolding siblings_def by (subst split) simp
  then show ?thesis
    by (simp add: siblingIndex_def nth_append)
qed


text \<open>
  What the two synthesizers build. \<^verbatim>\<open>getUniqueSelector\<close> walks up from the element
  to the nearest ancestor with an id, or the body, and joins one segment per level with
  \<open>>\<close>; it never looks at classes. \<^verbatim>\<open>getSelector\<close>, for an element with no id and
  no classes, gives the segment of the element's own level only. The number in a segment
  is the index \<^verbatim>\<open>indexOf\<close> finds among the children of the same tag, plus one.
\<close>

lemma selectors_level_by_level:
  "getUniqueSelector doc n = map_option (join '' > '') (walkUp doc n)
   \<and> (nodeAt doc (i # up) = Some e \<and> nodeAt doc up = Some parent
        \<and> elemId e = [] \<and> classList e = [] \<longrightarrow>
       getSelector doc (i # up) = Some (positionalSegment parent e i))
   \<and> (j < length (children q) \<longrightarrow>
       siblingIndex q (children q ! j) j < length (siblings q (children q ! j))
       \<and> siblings q (children q ! j) ! siblingIndex q (children q ! j) j = children q ! j)"
  using getUniqueSelector_walkUp[of doc n] getSelector_positional[of doc i up e parent]
    siblingIndex_indexOf[of j q]
  by blast

text \<open>
  \<^verbatim>\<open>getSelector\<close> looks at one level: the items of the two lists of \<open>listDocument\<close>
  get the same selector.
\<close>

lemma getSelector_one_level:
  "getSelector listDocument [0, 2, 1] = Some ''li''
   \<and> getSelector listDocument [0, 1, 1] = Some ''li''
   \<and> getSelector listDocument [2, 1] = Some ''ul:nth-child(2)''
   \<and> getUniqueSelector listDocument [0, 2, 1] = Some ''body > ul:nth-child(2) > li''"
  by code_simp


text \<open>
  The number never exceeds the child number, and the positional selector addresses the
  element it was built for exactly when every child before it has its tag.
\<close>

lemma siblingIndex_le: "siblingIndex parent e i \<le> i"
proof -
  have "length (filter (\<lambda>child. tagName child = tagName e) (take i (children parent)))
          \<le> length (take i (children parent))"
    by (rule length_filter_le)
  then show ?thesis by (simp add: siblingIndex_def)
qed

lemma nthChildOf_own_position:
  assumes "nodeAt doc parent = Some p" "i < length (children p)"
  shows "nthChildOf doc parent (toLowerCase (tagName (children p ! i)))
           (siblingIndex p (children p ! i) i + 1) = Some (i # parent)
         \<longleftrightarrow> siblingIndex p (children p ! i) i = i"
proof -
  have le: "siblingIndex p (children p ! i) i \<le> i" by (rule siblingIndex_le)
  with assms show ?thesis by (auto simp add: nthChildOf_def)
qed


section \<open>The claim about the selectors\<close>

text \<open>
  C6. The claim fails on the numbering. In \<open>listDocument\<close> the body has a paragraph and
  two lists. For the second list, its third child, both synthesizers write
  \<open>ul:nth-child(2)\<close>: 2 is its position among the lists. The browser's query resolves
  that to the body's second child, the first list. The first list gets
  \<open>ul:nth-child(1)\<close>, which addresses nothing, the first child being the paragraph.
\<close>

theorem nth_child_selector_addresses_sibling:
  "map_option (\<lambda>b. map tagName (children b)) (nodeAt listDocument [1]) = Some [''P'', ''UL'', ''UL'']
   \<and> getUniqueSelector listDocument [2, 1] = Some ''body > ul:nth-child(2)''
   \<and> getSelector listDocument [2, 1] = Some ''ul:nth-child(2)''
   \<and> nthChildOf listDocument [1] ''ul'' 2 = Some [1, 1]
   \<and> getUniqueSelector listDocument [1, 1] = Some ''body > ul:nth-child(1)''
   \<and> getSelector listDocument [1, 1] = Some ''ul:nth-child(1)''
   \<and> nthChildOf listDocument [1] ''ul'' 1 = None"
  by code_simp


end
